theory Spec2Isabelle
  imports Main "HOL-Library.Word" "HOL-Library.AList"
begin

section \<open>JavaScript values\<close>

text \<open>
  The connector handles dynamically typed JSON payloads: it classifies them with the
  \<^verbatim>\<open>in\<close> operator, reads properties that may be missing and tests values for
  truthiness. The model keeps that: a payload is an object, that is an association list
  from property names to values, in insertion order.
  Numbers are the integers (ids, chain ids); fractions and NaN are not modelled.
\<close>

datatype json =
    JUndefined
  | JNull
  | JBool bool
  | JNum int
  | JStr string
  | JArr "json list"
  | JObj "(string \<times> json) list"

type_synonym obj = "(string \<times> json) list"

type_synonym bytes = "8 word list"

datatype error = Error string | TypeError | URIError | SyntaxError | RangeError

text \<open>Truthiness, as \<^verbatim>\<open>if (v)\<close>, \<^verbatim>\<open>!v\<close> and \<^verbatim>\<open>a || b\<close> test it.\<close>

fun truthy :: "json \<Rightarrow> bool" where
  "truthy JUndefined = False"
| "truthy JNull = False"
| "truthy (JBool b) = b"
| "truthy (JNum n) = (n \<noteq> 0)"
| "truthy (JStr s) = (s \<noteq> [])"
| "truthy (JArr xs) = True"
| "truthy (JObj kvs) = True"

definition js_or :: "json \<Rightarrow> json \<Rightarrow> json" where
  "js_or a b = (if truthy a then a else b)"

fun nullish :: "json \<Rightarrow> bool" where
  "nullish JUndefined = True"
| "nullish JNull = True"
| "nullish v = False"

text \<open>\<^verbatim>\<open>"k" in object\<close> and \<^verbatim>\<open>object.k\<close> on an object.\<close>

definition has :: "string \<Rightarrow> obj \<Rightarrow> bool" where
  "has k ob = (map_of ob k \<noteq> None)"

definition getp :: "obj \<Rightarrow> string \<Rightarrow> json" where
  "getp ob k = (case map_of ob k of None \<Rightarrow> JUndefined | Some v \<Rightarrow> v)"

text \<open>
  \<^verbatim>\<open>v.k\<close> on a value that is not nullish: a missing property, and any property of a
  primitive or an array that the connector asks for, is \<^verbatim>\<open>undefined\<close>. On
  \<^verbatim>\<open>undefined\<close> and \<^verbatim>\<open>null\<close> the read throws a TypeError: the callers test
  \<open>nullish\<close> first.
\<close>

fun jget :: "json \<Rightarrow> string \<Rightarrow> json" where
  "jget (JObj kvs) k = getp kvs k"
| "jget v k = JUndefined"

definition show_digit :: "nat \<Rightarrow> char" where
  "show_digit n = ''0123456789'' ! n"

fun show_nat :: "nat \<Rightarrow> string" where
  "show_nat n = (if n < 10 then [show_digit n] else show_nat (n div 10) @ [show_digit (n mod 10)])"

declare show_nat.simps [simp del]

definition show_int :: "int \<Rightarrow> string" where
  "show_int i = (if i < 0 then CHR ''-'' # show_nat (nat (- i)) else show_nat (nat i))"

fun join_comma :: "string list \<Rightarrow> string" where
  "join_comma [] = []"
| "join_comma [x] = x"
| "join_comma (x # y # ys) = x @ '','' @ join_comma (y # ys)"

text \<open>
  The string a template literal \<^verbatim>\<open>`${v}`\<close> inserts for a value. Integers print in
  decimal (as JavaScript prints every integer below \<open>10\<^sup>2\<^sup>1\<close>).
\<close>

fun js_toString :: "json \<Rightarrow> string" where
  "js_toString JUndefined = ''undefined''"
| "js_toString JNull = ''null''"
| "js_toString (JBool b) = (if b then ''true'' else ''false'')"
| "js_toString (JNum n) = show_int n"
| "js_toString (JStr s) = s"
| "js_toString (JArr xs) = join_comma (map (\<lambda>x. if nullish x then [] else js_toString x) xs)"
| "js_toString (JObj kvs) = ''[object Object]''"

text \<open>\<^verbatim>\<open>v[0]\<close> on a value that is not nullish.\<close>

fun jidx0 :: "json \<Rightarrow> json" where
  "jidx0 (JArr []) = JUndefined"
| "jidx0 (JArr (x # xs)) = x"
| "jidx0 (JObj kvs) = getp kvs ''0''"
| "jidx0 (JStr []) = JUndefined"
| "jidx0 (JStr (c # cs)) = JStr [c]"
| "jidx0 v = JUndefined"

text \<open>Object spread \<^verbatim>\<open>{...base, ...ext}\<close>: a property of \<open>ext\<close> overrides the one in \<open>base\<close>.\<close>

fun obj_set :: "string \<Rightarrow> json \<Rightarrow> obj \<Rightarrow> obj" where
  "obj_set k v [] = [(k, v)]"
| "obj_set k v ((k', v') # r) = (if k = k' then (k, v) # r else (k', v') # obj_set k v r)"

definition spread :: "obj \<Rightarrow> obj \<Rightarrow> obj" where
  "spread base ext = foldl (\<lambda>ob kv. obj_set (fst kv) (snd kv) ob) base ext"

section \<open>Data model\<close>

text \<open>A relay frame, \<^verbatim>\<open>ISocketMessage\<close>.\<close>

record frame =
  topic :: json
  type :: string
  payload :: string

text \<open>The serializable session snapshot, \<^verbatim>\<open>IWalletConnectSession\<close>.\<close>

record session =
  connected :: bool
  accounts :: json
  chainId :: json
  bridge :: string
  key :: string
  clientId :: string
  clientMeta :: json
  peerId :: json
  peerMeta :: json
  handshakeId :: json
  handshakeTopic :: string

text \<open>What \<^verbatim>\<open>parseWalletConnectUri\<close> returns, \<^verbatim>\<open>IParseURIResult\<close>.\<close>

record parse_result =
  uri_protocol :: string
  uri_handshakeTopic :: string
  uri_version :: int
  uri_bridge :: string
  uri_key :: string

text \<open>
  The injected crypto library (\<^verbatim>\<open>ICryptoLib\<close>). Its promises are taken to settle
  at once: \<open>cl_generateKey\<close> is indexed by the number of fresh values drawn so far.
\<close>

record crypto =
  cl_generateKey :: "nat \<Rightarrow> bytes"
  cl_encrypt :: "obj \<Rightarrow> bytes \<Rightarrow> json"
  cl_decrypt :: "json \<Rightarrow> bytes \<Rightarrow> obj option"

text \<open>
  What the connector is given and what it imports: the crypto library (which may be
  missing), the helpers of \<^verbatim>\<open>./utils\<close>, whose code is not part of the sources, and
  the built-ins of the platform. \<open>uuid\<close> and \<open>payloadId\<close> return fresh values: they
  are indexed by the number of fresh values drawn so far (\<open>tick\<close> below).
  \<open>parseWalletConnectUri\<close> returns its result or throws.
  \<open>stackDepth\<close> is the depth of nested event dispatch the call stack allows.
\<close>

record env =
  cryptoLib :: "crypto option"
  uuid :: "nat \<Rightarrow> string"
  payloadId :: "nat \<Rightarrow> int"
  getMeta :: json
  convertHexToArrayBuffer :: "json \<Rightarrow> bytes"
  convertArrayBufferToHex :: "bytes \<Rightarrow> string"
  parseWalletConnectUri :: "string \<Rightarrow> error + parse_result"
  decodeURIComponent :: "string \<Rightarrow> string option"
  JSON_stringify :: "json \<Rightarrow> string"
  JSON_parse :: "string \<Rightarrow> json option"
  stackDepth :: nat

text \<open>
  A listener is a closure. The model names each closure by the place that creates it,
  with the variables it captures; a listener registered by the application through
  \<^verbatim>\<open>on\<close> is opaque and only numbered.
\<close>

datatype callback =
    SessionResponseCb string
  | CallResponseCb nat
  | SessionRequestCb
  | SessionUpdateCb
  | ExchangeKeyCb
  | UserCb nat

text \<open>
  The promise \<^verbatim>\<open>_subscribeToCallResponse\<close> returns, and who awaits it:
  \<^verbatim>\<open>_exchangeKey\<close>, which swaps the key when it resolves, or a caller outside.
\<close>

datatype awaiter = ExchangeKeyAwait | CallerAwait

datatype pstate = Pending | Resolved json | Rejected string

text \<open>
  The connector: the private fields of the class (\<^verbatim>\<open>_bridge\<close> is \<open>p_bridge\<close>, and so
  on; \<open>p_socket\<close> holds the url of the open socket), followed by the world it acts on:
  the module-level \<open>storage\<close> (absent, or the slots with their snapshots), the frames
  passed to \<^verbatim>\<open>socket.send\<close> in order (\<open>wire\<close>), the promises of pending calls, the
  application listeners invoked with their payloads (\<open>called\<close>), the values logged with
  \<^verbatim>\<open>console.error\<close>, and the number of fresh values drawn (\<open>tick\<close>).
\<close>

record connector =
  p_bridge :: string
  p_key :: "bytes option"
  p_nextKey :: "bytes option"
  p_clientId :: string
  p_clientMeta :: json
  p_peerId :: json
  p_peerMeta :: json
  p_handshakeId :: json
  p_handshakeTopic :: string
  p_accounts :: json
  p_chainId :: json
  p_socket :: "string option"
  p_queue :: "frame list"
  p_eventEmitters :: "(string \<times> callback) list"
  p_connected :: bool
  storage :: "(string \<times> session) list option"
  wire :: "frame list"
  promises :: "(awaiter \<times> pstate) list"
  called :: "(nat \<times> obj) list"
  console :: "json list"
  tick :: nat

type_synonym 'a result = "(error + 'a) \<times> connector"

definition bind_r :: "'a result \<Rightarrow> ('a \<Rightarrow> connector \<Rightarrow> 'b result) \<Rightarrow> 'b result" where
  "bind_r m f = (case m of (Inl e, s) \<Rightarrow> (Inl e, s) | (Inr a, s) \<Rightarrow> f a s)"

definition protocol :: string where
  "protocol = ''wc''"

definition version :: int where
  "version = 1"

definition storageId :: string where
  "storageId = ''walletconnect''"

section \<open>Getters and setters\<close>

definition set_bridge :: "string \<Rightarrow> connector \<Rightarrow> connector" where
  "set_bridge v s = (if v = [] then s else s\<lparr>p_bridge := v\<rparr>)"

definition set_key :: "env \<Rightarrow> string \<Rightarrow> connector \<Rightarrow> connector" where
  "set_key e v s =
     (if v = [] then s else s\<lparr>p_key := Some (convertHexToArrayBuffer e (JStr v))\<rparr>)"

definition get_key :: "env \<Rightarrow> connector \<Rightarrow> string" where
  "get_key e s = (case p_key s of Some k \<Rightarrow> convertArrayBufferToHex e k | None \<Rightarrow> [])"

text \<open>The next key comes from the peer's payload, so the value set may be any JSON value.\<close>

definition set_nextKey :: "env \<Rightarrow> json \<Rightarrow> connector \<Rightarrow> connector" where
  "set_nextKey e v s =
     (if \<not> truthy v then s else s\<lparr>p_nextKey := Some (convertHexToArrayBuffer e v)\<rparr>)"

definition get_nextKey :: "env \<Rightarrow> connector \<Rightarrow> string" where
  "get_nextKey e s = (case p_nextKey s of Some k \<Rightarrow> convertArrayBufferToHex e k | None \<Rightarrow> [])"

definition set_clientId :: "string \<Rightarrow> connector \<Rightarrow> connector" where
  "set_clientId v s = (if v = [] then s else s\<lparr>p_clientId := v\<rparr>)"

text \<open>Reading \<^verbatim>\<open>clientId\<close> assigns a fresh uuid when none is set.\<close>

definition get_clientId :: "env \<Rightarrow> connector \<Rightarrow> string \<times> connector" where
  "get_clientId e s =
     (if p_clientId s = []
      then (uuid e (tick s), s\<lparr>p_clientId := uuid e (tick s), tick := Suc (tick s)\<rparr>)
      else (p_clientId s, s))"

definition set_peerId :: "json \<Rightarrow> connector \<Rightarrow> connector" where
  "set_peerId v s = (if \<not> truthy v then s else s\<lparr>p_peerId := v\<rparr>)"

text \<open>The setter of \<^verbatim>\<open>clientMeta\<close> returns at once; the getter fills the field lazily.\<close>

definition set_clientMeta :: "json \<Rightarrow> connector \<Rightarrow> connector" where
  "set_clientMeta v s = s"

definition get_clientMeta :: "env \<Rightarrow> connector \<Rightarrow> json \<times> connector" where
  "get_clientMeta e s =
     (if \<not> truthy (p_clientMeta s) then (getMeta e, s\<lparr>p_clientMeta := getMeta e\<rparr>)
      else (p_clientMeta s, s))"

definition set_handshakeTopic :: "string \<Rightarrow> connector \<Rightarrow> connector" where
  "set_handshakeTopic v s = (if v = [] then s else s\<lparr>p_handshakeTopic := v\<rparr>)"

definition set_handshakeId :: "json \<Rightarrow> connector \<Rightarrow> connector" where
  "set_handshakeId v s = (if \<not> truthy v then s else s\<lparr>p_handshakeId := v\<rparr>)"

definition get_pending :: "connector \<Rightarrow> bool" where
  "get_pending s = (p_handshakeTopic s \<noteq> [])"

definition get_session :: "env \<Rightarrow> connector \<Rightarrow> session \<times> connector" where
  "get_session e s =
     (let (cid, s1) = get_clientId e s;
          (meta, s2) = get_clientMeta e s1
      in (\<lparr>connected = p_connected s, accounts = p_accounts s, chainId = p_chainId s,
           bridge = p_bridge s, key = get_key e s, clientId = cid, clientMeta = meta,
           peerId = p_peerId s2, peerMeta = p_peerMeta s2, handshakeId = p_handshakeId s2,
           handshakeTopic = p_handshakeTopic s2\<rparr>, s2))"

definition set_session :: "env \<Rightarrow> session \<Rightarrow> connector \<Rightarrow> connector" where
  "set_session e v s =
     (let s1 = s\<lparr>p_connected := connected v\<rparr>;
          s2 = s1\<lparr>p_accounts := accounts v\<rparr>;
          s3 = s2\<lparr>p_chainId := chainId v\<rparr>;
          s4 = set_bridge (bridge v) s3;
          s5 = set_key e (key v) s4;
          s6 = set_clientId (clientId v) s5;
          s7 = set_clientMeta (clientMeta v) s6;
          s8 = set_peerId (peerId v) s7;
          s9 = s8\<lparr>p_peerMeta := peerMeta v\<rparr>;
          s10 = set_handshakeId (handshakeId v) s9
      in set_handshakeTopic (handshakeTopic v) s10)"

section \<open>The handshake URI\<close>

text \<open>
  \<^verbatim>\<open>_parseUri\<close> has no handler around its call of \<^verbatim>\<open>parseWalletConnectUri\<close>: what the
  helper throws, \<^verbatim>\<open>_parseUri\<close> throws.
\<close>

definition parseUri :: "env \<Rightarrow> string \<Rightarrow> error + (string \<times> string \<times> string)" where
  "parseUri e uri =
     (case parseWalletConnectUri e uri of
        Inl err \<Rightarrow> Inl err
      | Inr result \<Rightarrow>
          if uri_protocol result = protocol then
            if uri_handshakeTopic result = []
            then Inl (Error ''Invalid or missing handshakeTopic parameter value'')
            else if uri_bridge result = []
            then Inl (Error ''Invalid or missing bridge url parameter value'')
            else (case decodeURIComponent e (uri_bridge result) of
                    None \<Rightarrow> Inl URIError
                  | Some b \<Rightarrow>
                      if uri_key result = []
                      then Inl (Error ''Invalid or missing kkey parameter value'')
                      else Inr (uri_handshakeTopic result, b, uri_key result))
          else Inl (Error ''URI format doesn't follow Connector protocol''))"

definition set_uri :: "env \<Rightarrow> string \<Rightarrow> connector \<Rightarrow> unit result" where
  "set_uri e v s =
     (if v = [] then (Inr (), s)
      else (case parseUri e v of
              Inl err \<Rightarrow> (Inl err, s)
            | Inr (t, b, k) \<Rightarrow>
                (Inr (), set_key e k (set_bridge b (set_handshakeTopic t s)))))"

section \<open>Crypto, storage and transport\<close>

definition generateKey :: "env \<Rightarrow> connector \<Rightarrow> bytes option \<times> connector" where
  "generateKey e s =
     (case cryptoLib e of
        Some cl \<Rightarrow> (Some (cl_generateKey cl (tick s)), s\<lparr>tick := Suc (tick s)\<rparr>)
      | None \<Rightarrow> (None, s))"

definition encrypt :: "env \<Rightarrow> connector \<Rightarrow> obj \<Rightarrow> json option" where
  "encrypt e s data =
     (case cryptoLib e of
        None \<Rightarrow> None
      | Some cl \<Rightarrow> (case p_key s of None \<Rightarrow> None | Some k \<Rightarrow> Some (cl_encrypt cl data k)))"

definition decrypt :: "env \<Rightarrow> connector \<Rightarrow> json \<Rightarrow> obj option" where
  "decrypt e s pl =
     (case cryptoLib e of
        None \<Rightarrow> None
      | Some cl \<Rightarrow> (case p_key s of None \<Rightarrow> None | Some k \<Rightarrow> cl_decrypt cl pl k))"

text \<open>\<^verbatim>\<open>JSON.stringify(encryptionPayload)\<close>: of \<^verbatim>\<open>null\<close> it is the string \<^verbatim>\<open>null\<close>.\<close>

definition stringify_payload :: "env \<Rightarrow> json option \<Rightarrow> string" where
  "stringify_payload e p = (case p of None \<Rightarrow> ''null'' | Some v \<Rightarrow> JSON_stringify e v)"

text \<open>
  The storage slot holds the snapshot itself: its JSON text, and the test on reading it
  back that it has a \<^verbatim>\<open>bridge\<close> property, are left out.
\<close>

definition getStorageSession :: "connector \<Rightarrow> session option" where
  "getStorageSession s = (case storage s of None \<Rightarrow> None | Some m \<Rightarrow> map_of m storageId)"

definition setStorageSession :: "env \<Rightarrow> connector \<Rightarrow> session \<times> connector" where
  "setStorageSession e s =
     (let (sess, s1) = get_session e s
      in (sess, case storage s1 of
                  None \<Rightarrow> s1
                | Some m \<Rightarrow> s1\<lparr>storage := Some (AList.update storageId sess m)\<rparr>))"

definition removeStorageSession :: "connector \<Rightarrow> connector" where
  "removeStorageSession s =
     (case storage s of
        None \<Rightarrow> s
      | Some m \<Rightarrow> s\<lparr>storage := Some (AList.delete storageId m)\<rparr>)"

definition socketSend :: "frame \<Rightarrow> connector \<Rightarrow> unit result" where
  "socketSend socketMessage s =
     (case p_socket s of
        None \<Rightarrow> (Inl (Error ''Missing socket: required for sending message''), s)
      | Some sock \<Rightarrow> (Inr (), s\<lparr>wire := wire s @ [socketMessage]\<rparr>))"

definition setToQueue :: "frame \<Rightarrow> connector \<Rightarrow> connector" where
  "setToQueue socketMessage s = s\<lparr>p_queue := p_queue s @ [socketMessage]\<rparr>"

fun send_each :: "frame list \<Rightarrow> connector \<Rightarrow> unit result" where
  "send_each [] s = (Inr (), s)"
| "send_each (f # fs) s = bind_r (socketSend f s) (\<lambda>u s'. send_each fs s')"

definition dispatchQueue :: "connector \<Rightarrow> unit result" where
  "dispatchQueue s = bind_r (send_each (p_queue s) s) (\<lambda>u s'. (Inr (), s'\<lparr>p_queue := []\<rparr>))"

text \<open>The url \<^verbatim>\<open>_socketOpen\<close> connects to, and the handler it installs for the open event.\<close>

definition socketOpen :: "connector \<Rightarrow> string" where
  "socketOpen s =
     (let b = p_bridge s in
      if take 5 b = ''https'' then ''wss'' @ drop 5 b
      else if take 4 b = ''http'' then ''ws'' @ drop 4 b
      else b)"

definition socket_onopen :: "env \<Rightarrow> string \<Rightarrow> connector \<Rightarrow> unit result" where
  "socket_onopen e socket s =
     (let s1 = s\<lparr>p_socket := Some socket\<rparr>;
          (cid, s2) = get_clientId e s1;
          s3 = setToQueue \<lparr>topic = JStr cid, type = ''sub'', payload = []\<rparr> s2
      in dispatchQueue s3)"

section \<open>JSON-RPC\<close>

definition isRpcRequest :: "obj \<Rightarrow> bool" where
  "isRpcRequest ob = has ''method'' ob"

definition isRpcResponse :: "obj \<Rightarrow> bool" where
  "isRpcResponse ob = has ''result'' ob"

definition isInternalEvent :: "obj \<Rightarrow> bool" where
  "isInternalEvent ob = has ''event'' ob"

definition formatRequest :: "env \<Rightarrow> obj \<Rightarrow> connector \<Rightarrow> obj \<times> connector" where
  "formatRequest e request s =
     (spread [(''id'', JNum (payloadId e (tick s))), (''jsonrpc'', JStr ''2.0'')] request,
      s\<lparr>tick := Suc (tick s)\<rparr>)"

definition formatResponse :: "obj \<Rightarrow> obj" where
  "formatResponse response = spread [(''jsonrpc'', JStr ''2.0'')] response"

definition on :: "string \<Rightarrow> callback \<Rightarrow> connector \<Rightarrow> connector" where
  "on event cb s = s\<lparr>p_eventEmitters := p_eventEmitters s @ [(event, cb)]\<rparr>"

text \<open>
  An asynchronous method runs up to its \<^verbatim>\<open>await\<close> when it is called; what follows the
  \<^verbatim>\<open>await\<close> runs later, when the awaited promise has settled, and other tasks of the
  connector may run in between. The two sending methods are therefore given in two
  parts, cut at \<^verbatim>\<open>await this._encrypt(...)\<close>. The part \<open>_begin\<close> is what runs at the call:
  \<^verbatim>\<open>_encrypt\<close> reads \<^verbatim>\<open>this._key\<close> there and hands the data and that key to the crypto
  library, so the envelope the promise will settle with is fixed at that point, and it
  is what \<open>_begin\<close> returns. The part \<open>_resume\<close> is the continuation: it takes the
  envelope, reads \<^verbatim>\<open>this.peerId\<close> and \<^verbatim>\<open>this._socket\<close> as they are by then, and emits
  the frame.

  The method under its own name is the two parts back to back, that is, run to
  completion with no other task in between. An asynchronous method that is called
  without \<^verbatim>\<open>await\<close> cannot throw into its caller: the caller keeps the state and drops
  the outcome.
\<close>

definition sendRequest_begin :: "env \<Rightarrow> obj \<Rightarrow> connector \<Rightarrow> json option \<times> connector" where
  "sendRequest_begin e request s =
     (let (callRequest, s1) = formatRequest e request s
      in (encrypt e s1 callRequest, s1))"

definition sendRequest_resume :: "env \<Rightarrow> json \<Rightarrow> json option \<Rightarrow> connector \<Rightarrow> unit result" where
  "sendRequest_resume e topic' encryptionPayload s =
     (let socketMessage = \<lparr>topic = js_or topic' (p_peerId s), type = ''pub'',
                           payload = stringify_payload e encryptionPayload\<rparr>
      in if p_socket s \<noteq> None then socketSend socketMessage s
         else (Inr (), setToQueue socketMessage s))"

definition sendRequest :: "env \<Rightarrow> obj \<Rightarrow> json \<Rightarrow> connector \<Rightarrow> unit result" where
  "sendRequest e request topic' s =
     (let (encryptionPayload, s1) = sendRequest_begin e request s
      in sendRequest_resume e topic' encryptionPayload s1)"

definition sendResponse_begin :: "env \<Rightarrow> obj \<Rightarrow> connector \<Rightarrow> json option" where
  "sendResponse_begin e response s = encrypt e s response"

definition sendResponse_resume :: "env \<Rightarrow> json option \<Rightarrow> connector \<Rightarrow> unit result" where
  "sendResponse_resume e encryptionPayload s =
     (let socketMessage = \<lparr>topic = p_peerId s, type = ''pub'',
                           payload = stringify_payload e encryptionPayload\<rparr>
      in if p_socket s \<noteq> None then socketSend socketMessage s
         else (Inr (), setToQueue socketMessage s))"

definition sendResponse :: "env \<Rightarrow> obj \<Rightarrow> connector \<Rightarrow> unit result" where
  "sendResponse e response s =
     sendResponse_resume e (sendResponse_begin e response s) s"

definition subscribeToSessionRequest :: "connector \<Rightarrow> connector" where
  "subscribeToSessionRequest s =
     setToQueue \<lparr>topic = JStr (p_handshakeTopic s), type = ''sub'', payload = []\<rparr> s"

definition subscribeToSessionResponse :: "json \<Rightarrow> string \<Rightarrow> connector \<Rightarrow> connector" where
  "subscribeToSessionResponse id' errorMsg s =
     on (''response:'' @ js_toString id') (SessionResponseCb errorMsg) s"

text \<open>The new promise is the last entry of \<open>promises\<close>; its listener carries its index.\<close>

definition subscribeToCallResponse :: "json \<Rightarrow> awaiter \<Rightarrow> connector \<Rightarrow> nat \<times> connector" where
  "subscribeToCallResponse id' aw s =
     (length (promises s),
      on (''response:'' @ js_toString id') (CallResponseCb (length (promises s)))
         (s\<lparr>promises := promises s @ [(aw, Pending)]\<rparr>))"

definition subscribeToInternalEvents :: "connector \<Rightarrow> connector" where
  "subscribeToInternalEvents s =
     on ''wc_exchangeKey'' ExchangeKeyCb
       (on ''wc_sessionUpdate'' SessionUpdateCb
         (on ''wc_sessionRequest'' SessionRequestCb s))"

definition sendSessionRequest :: "env \<Rightarrow> obj \<Rightarrow> string \<Rightarrow> json \<Rightarrow> connector \<Rightarrow> connector" where
  "sendSessionRequest e request errorMsg topic' s =
     subscribeToSessionResponse (getp request ''id'') errorMsg
       (snd (sendRequest e request topic' s))"

definition sendCallRequest :: "env \<Rightarrow> awaiter \<Rightarrow> obj \<Rightarrow> connector \<Rightarrow> nat \<times> connector" where
  "sendCallRequest e aw request s =
     subscribeToCallResponse (getp request ''id'') aw
       (snd (sendRequest e request JUndefined s))"

section \<open>Key manager\<close>

definition swapKey :: "env \<Rightarrow> connector \<Rightarrow> connector" where
  "swapKey e s = snd (setStorageSession e (s\<lparr>p_key := p_nextKey s, p_nextKey := None\<rparr>))"

text \<open>
  \<^verbatim>\<open>_exchangeKey\<close> up to the point where it waits for the peer's response: the promise
  it awaits is registered with \<open>ExchangeKeyAwait\<close>, and \<open>resolve\<close> below runs the rest
  of the method, the swap, when that promise resolves.
\<close>

definition exchangeKey :: "env \<Rightarrow> connector \<Rightarrow> connector" where
  "exchangeKey e s =
     (let (k, s1) = generateKey e s;
          s2 = s1\<lparr>p_nextKey := k\<rparr>;
          (cid, s3) = get_clientId e s2;
          (meta, s4) = get_clientMeta e s3;
          (request, s5) = formatRequest e
             [(''method'', JStr ''wc_exchangeKey''),
              (''params'', JArr [JObj [(''peerId'', JStr cid), (''peerMeta'', meta),
                                       (''nextKey'', JStr (get_nextKey e s4))]])] s4
      in snd (sendCallRequest e ExchangeKeyAwait request s5))"

text \<open>
  \<^verbatim>\<open>_handleExchangeKeyRequest\<close> is cut at \<^verbatim>\<open>await this._sendResponse(response)\<close>. The
  part \<open>_begin\<close> is what runs at the call, up to where \<^verbatim>\<open>_sendResponse\<close> suspends: it
  stages the next key and starts the encryption of the acknowledgement, and it returns
  the envelope. The awaited \<^verbatim>\<open>_sendResponse\<close> then resumes on its own
  (\<open>sendResponse_resume\<close>) and emits the acknowledgement. Once it has returned, the
  handler's continuation \<open>_resume\<close> runs: \<^verbatim>\<open>_swapKey\<close>. The method under its own name is
  the three steps back to back.
\<close>

definition handleExchangeKeyRequest_begin ::
  "env \<Rightarrow> obj \<Rightarrow> connector \<Rightarrow> (json option) result" where
  "handleExchangeKeyRequest_begin e payload' s =
     (if nullish (getp payload' ''params'') then (Inl TypeError, s)
      else
        let p0 = jidx0 (getp payload' ''params'') in
        if nullish p0 then (Inl TypeError, s)
        else
          let s1 = set_peerId (jget p0 ''peerId'') s;
              s2 = s1\<lparr>p_peerMeta := jget p0 ''peerMeta''\<rparr>;
              s3 = set_nextKey e (jget p0 ''nextKey'') s2;
              response = [(''id'', getp payload' ''id''), (''jsonrpc'', JStr ''2.0''),
                          (''result'', JBool True)]
          in (Inr (sendResponse_begin e response s3), s3))"

definition handleExchangeKeyRequest_resume :: "env \<Rightarrow> connector \<Rightarrow> unit result" where
  "handleExchangeKeyRequest_resume e s = (Inr (), swapKey e s)"

definition handleExchangeKeyRequest :: "env \<Rightarrow> obj \<Rightarrow> connector \<Rightarrow> unit result" where
  "handleExchangeKeyRequest e payload' s =
     bind_r (handleExchangeKeyRequest_begin e payload' s)
       (\<lambda>encryptionPayload s3.
          bind_r (sendResponse_resume e encryptionPayload s3)
            (\<lambda>u s4. handleExchangeKeyRequest_resume e s4))"

section \<open>Promises of pending calls\<close>

definition resolve :: "env \<Rightarrow> nat \<Rightarrow> json \<Rightarrow> connector \<Rightarrow> connector" where
  "resolve e n v s =
     (if n < length (promises s) then
        (case promises s ! n of
           (aw, Pending) \<Rightarrow>
             (let s1 = s\<lparr>promises := (promises s)[n := (aw, Resolved v)]\<rparr>
              in case aw of ExchangeKeyAwait \<Rightarrow> swapKey e s1 | CallerAwait \<Rightarrow> s1)
         | (aw, st) \<Rightarrow> s)
      else s)"

definition reject :: "nat \<Rightarrow> string \<Rightarrow> connector \<Rightarrow> connector" where
  "reject n msg s =
     (if n < length (promises s) then
        (case promises s ! n of
           (aw, Pending) \<Rightarrow> s\<lparr>promises := (promises s)[n := (aw, Rejected msg)]\<rparr>
         | (aw, st) \<Rightarrow> s)
      else s)"

section \<open>Event dispatcher and session state machine\<close>

text \<open>
  \<^verbatim>\<open>_handleSessionResponse\<close> fires an event through \<^verbatim>\<open>_triggerEvents\<close>, which calls
  listeners, which may call \<^verbatim>\<open>_handleSessionResponse\<close>. The recursion is cut by the
  call stack: the handler takes the dispatcher it calls as \<open>trig\<close>, and \<open>triggerEvents\<close>
  below counts the depth left, throwing a RangeError at 0 as the exhausted stack does.
\<close>

definition handleSessionResponse ::
  "(obj \<Rightarrow> connector \<Rightarrow> unit result) \<Rightarrow> env \<Rightarrow> json \<Rightarrow> string \<Rightarrow> connector \<Rightarrow> unit result" where
  "handleSessionResponse trig e sessionParams errorMsg s =
     (if nullish sessionParams then (Inl TypeError, s)
      else if truthy (jget sessionParams ''approved'') then
        bind_r
          (if \<not> p_connected s then
             (let s1 = s\<lparr>p_connected := True\<rparr>;
                  s2 = (if truthy (jget sessionParams ''chainId'')
                        then s1\<lparr>p_chainId := jget sessionParams ''chainId''\<rparr> else s1);
                  s3 = (if truthy (jget sessionParams ''accounts'')
                        then s2\<lparr>p_accounts := jget sessionParams ''accounts''\<rparr> else s2)
              in trig [(''event'', JStr ''connect''),
                       (''params'', JArr [JObj [(''peerId'', p_peerId s3),
                          (''peerMeta'', p_peerMeta s3), (''chainId'', p_chainId s3),
                          (''accounts'', p_accounts s3)]])] s3)
           else
             (let s2 = (if truthy (jget sessionParams ''chainId'')
                        then s\<lparr>p_chainId := jget sessionParams ''chainId''\<rparr> else s);
                  s3 = (if truthy (jget sessionParams ''accounts'')
                        then s2\<lparr>p_accounts := jget sessionParams ''accounts''\<rparr> else s2)
              in trig [(''event'', JStr ''session_update''),
                       (''params'', JArr [JObj [(''chainId'', p_chainId s3),
                          (''accounts'', p_accounts s3)]])] s3))
          (\<lambda>u s4. (Inr (), snd (setStorageSession e s4)))
      else
        (let s1 = s\<lparr>p_connected := False\<rparr>;
             message = js_or (jget sessionParams ''message'') (JStr errorMsg)
         in bind_r
              (trig [(''event'', JStr ''disconnect''),
                     (''params'', JArr [JObj [(''message'', message)]])] s1)
              (\<lambda>u s2. (Inr (), removeStorageSession (s2\<lparr>console := console s2 @ [message]\<rparr>)))))"

text \<open>
  Calling a listener as \<^verbatim>\<open>callback(null, payload)\<close>: the error argument is always
  \<^verbatim>\<open>null\<close>, so the branches on it never run. The handler of \<^verbatim>\<open>wc_exchangeKey\<close> and
  \<^verbatim>\<open>_exchangeKey\<close> are asynchronous and cannot throw into the dispatcher. An application
  listener is recorded in \<open>called\<close>; it is taken not to throw and not to call back into
  the connector.
\<close>

definition invoke ::
  "(obj \<Rightarrow> connector \<Rightarrow> unit result) \<Rightarrow> env \<Rightarrow> callback \<Rightarrow> obj \<Rightarrow> connector \<Rightarrow> unit result" where
  "invoke trig e cb payload' s =
     (case cb of
        SessionResponseCb errorMsg \<Rightarrow>
          handleSessionResponse trig e (getp payload' ''result'') errorMsg s
      | CallResponseCb n \<Rightarrow>
          (if truthy (getp payload' ''result'')
           then (Inr (), resolve e n (getp payload' ''result'') s)
           else (Inr (), reject n ''Invalid JSON RPC response format received'' s))
      | SessionRequestCb \<Rightarrow>
          (let s1 = set_handshakeId (getp payload' ''id'') s in
           if nullish (getp payload' ''params'') then (Inl TypeError, s1)
           else
             let p0 = jidx0 (getp payload' ''params'') in
             if nullish p0 then (Inl TypeError, s1)
             else
               let s2 = set_peerId (jget p0 ''peerId'') s1;
                   s3 = s2\<lparr>p_peerMeta := jget p0 ''peerMeta''\<rparr>
               in (Inr (), exchangeKey e s3))
      | SessionUpdateCb \<Rightarrow>
          (if nullish (getp payload' ''params'') then (Inl TypeError, s)
           else handleSessionResponse trig e (jidx0 (getp payload' ''params''))
                  ''Session disconnected'' s)
      | ExchangeKeyCb \<Rightarrow> (Inr (), snd (handleExchangeKeyRequest e payload' s))
      | UserCb n \<Rightarrow> (Inr (), s\<lparr>called := called s @ [(n, payload')]\<rparr>))"

definition event_of :: "obj \<Rightarrow> json" where
  "event_of payload' =
     (if isRpcRequest payload' then getp payload' ''method''
      else if isRpcResponse payload'
      then JStr (''response:'' @ js_toString (getp payload' ''id''))
      else if isInternalEvent payload' then getp payload' ''event''
      else JStr [])"

definition select_emitters :: "json \<Rightarrow> (string \<times> callback) list \<Rightarrow> (string \<times> callback) list" where
  "select_emitters event ems =
     (let eventEmitters = (if truthy event then filter (\<lambda>em. JStr (fst em) = event) ems else [])
      in if eventEmitters = [] then filter (\<lambda>em. fst em = ''call_request'') ems
         else eventEmitters)"

fun run_callbacks ::
  "(callback \<Rightarrow> obj \<Rightarrow> connector \<Rightarrow> unit result) \<Rightarrow> (string \<times> callback) list \<Rightarrow> obj \<Rightarrow> connector \<Rightarrow> unit result" where
  "run_callbacks call [] payload' s = (Inr (), s)"
| "run_callbacks call (em # ems) payload' s =
     bind_r (call (snd em) payload' s) (\<lambda>u s'. run_callbacks call ems payload' s')"

primrec triggerEvents :: "nat \<Rightarrow> env \<Rightarrow> obj \<Rightarrow> connector \<Rightarrow> unit result" where
  "triggerEvents 0 e payload' s = (Inl RangeError, s)"
| "triggerEvents (Suc d) e payload' s =
     run_callbacks (invoke (triggerEvents d e) e)
       (select_emitters (event_of payload') (p_eventEmitters s)) payload' s"

section \<open>Public operations\<close>

definition createSession :: "env \<Rightarrow> connector \<Rightarrow> unit result" where
  "createSession e s =
     (if p_connected s then (Inl (Error ''Session currently connected''), s)
      else if get_pending s then (Inr (), s)
      else
        let (k, s1) = generateKey e s;
            s2 = s1\<lparr>p_key := k\<rparr>;
            (cid, s3) = get_clientId e s2;
            (meta, s4) = get_clientMeta e s3;
            (request, s5) = formatRequest e
               [(''method'', JStr ''wc_sessionRequest''),
                (''params'', JArr [JObj [(''peerId'', JStr cid), (''peerMeta'', meta)]])] s4;
            s6 = set_handshakeId (getp request ''id'') s5;
            s7 = set_handshakeTopic (uuid e (tick s6)) (s6\<lparr>tick := Suc (tick s6)\<rparr>);
            s8 = sendSessionRequest e request ''Session update rejected''
                   (JStr (p_handshakeTopic s7)) s7
        in (Inr (), snd (setStorageSession e s8)))"

definition approveSession :: "env \<Rightarrow> obj \<Rightarrow> connector \<Rightarrow> unit result" where
  "approveSession e sessionStatus s =
     (if p_connected s then (Inl (Error ''Session currently connected''), s)
      else
        let s1 = s\<lparr>p_chainId := getp sessionStatus ''chainId''\<rparr>;
            s2 = s1\<lparr>p_accounts := getp sessionStatus ''accounts''\<rparr>;
            sessionParams = [(''approved'', JBool True), (''chainId'', p_chainId s2),
                             (''accounts'', p_accounts s2), (''message'', JNull)];
            response = [(''id'', p_handshakeId s2), (''jsonrpc'', JStr ''2.0''),
                        (''result'', JObj sessionParams)];
            s3 = snd (sendResponse e response s2);
            s4 = s3\<lparr>p_connected := True\<rparr>
        in bind_r
             (triggerEvents (stackDepth e) e
                [(''event'', JStr ''connect''),
                 (''params'', JArr [JObj [(''peerId'', p_peerId s4),
                    (''peerMeta'', p_peerMeta s4), (''chainId'', p_chainId s4),
                    (''accounts'', p_accounts s4)]])] s4)
             (\<lambda>u s5. (Inr (), snd (setStorageSession e s5))))"

text \<open>The optional \<^verbatim>\<open>sessionError\<close> is \<open>JUndefined\<close> when the caller leaves it out.\<close>

definition rejectSession :: "env \<Rightarrow> json \<Rightarrow> connector \<Rightarrow> unit result" where
  "rejectSession e sessionError s =
     (if p_connected s then (Inl (Error ''Session currently connected''), s)
      else
        let message = (if truthy sessionError then jget sessionError ''message'' else JNull);
            sessionParams = [(''approved'', JBool False), (''chainId'', JNull),
                             (''accounts'', JNull), (''message'', message)];
            response = [(''id'', p_handshakeId s), (''jsonrpc'', JStr ''2.0''),
                        (''result'', JObj sessionParams)];
            s1 = snd (sendResponse e response s);
            s2 = s1\<lparr>p_connected := False\<rparr>
        in bind_r
             (triggerEvents (stackDepth e) e
                [(''event'', JStr ''disconnect''),
                 (''params'', JArr [JObj [(''message'', message)]])] s2)
             (\<lambda>u s3. (Inr (), removeStorageSession s3)))"

definition updateSession :: "env \<Rightarrow> obj \<Rightarrow> connector \<Rightarrow> unit result" where
  "updateSession e sessionStatus s =
     (if \<not> p_connected s then (Inl (Error ''Session currently disconnected''), s)
      else
        let s1 = s\<lparr>p_chainId := getp sessionStatus ''chainId''\<rparr>;
            s2 = s1\<lparr>p_accounts := getp sessionStatus ''accounts''\<rparr>;
            sessionParams = [(''approved'', JBool True), (''chainId'', p_chainId s2),
                             (''accounts'', p_accounts s2), (''message'', JNull)];
            (request, s3) = formatRequest e
               [(''method'', JStr ''wc_sessionUpdate''),
                (''params'', JArr [JObj sessionParams])] s2;
            s4 = sendSessionRequest e request ''Session update rejected'' JUndefined s3
        in bind_r
             (triggerEvents (stackDepth e) e
                [(''event'', JStr ''session_update''),
                 (''params'', JArr [JObj [(''chainId'', p_chainId s4),
                    (''accounts'', p_accounts s4)]])] s4)
             (\<lambda>u s5. (Inr (), snd (setStorageSession e s5))))"

definition killSession :: "env \<Rightarrow> json \<Rightarrow> connector \<Rightarrow> unit result" where
  "killSession e sessionError s =
     (if \<not> p_connected s then (Inl (Error ''Session currently disconnected''), s)
      else
        let message = (if truthy sessionError then jget sessionError ''message'' else JNull);
            sessionParams = [(''approved'', JBool False), (''chainId'', JNull),
                             (''accounts'', JNull), (''message'', message)];
            (request, s1) = formatRequest e
               [(''method'', JStr ''wc_sessionUpdate''),
                (''params'', JArr [JObj sessionParams])] s;
            s2 = sendSessionRequest e request ''Session kill rejected'' JUndefined s1;
            s3 = s2\<lparr>p_connected := False\<rparr>
        in bind_r
             (triggerEvents (stackDepth e) e
                [(''event'', JStr ''disconnect''),
                 (''params'', JArr [JObj [(''message'', message)]])] s3)
             (\<lambda>u s4. (Inr (), removeStorageSession s4)))"

text \<open>
  The three calls return the promise of the peer's answer: the result is its index in
  \<open>promises\<close>.
\<close>

definition sendTransaction :: "env \<Rightarrow> json \<Rightarrow> connector \<Rightarrow> nat result" where
  "sendTransaction e tx s =
     (if \<not> p_connected s then (Inl (Error ''Session currently disconnected''), s)
      else
        let (request, s1) = formatRequest e
               [(''method'', JStr ''eth_sendTransaction''), (''params'', JArr [tx])] s;
            (n, s2) = sendCallRequest e CallerAwait request s1
        in (Inr n, s2))"

definition signMessage :: "env \<Rightarrow> json \<Rightarrow> connector \<Rightarrow> nat result" where
  "signMessage e params s =
     (if \<not> p_connected s then (Inl (Error ''Session currently disconnected''), s)
      else
        let (request, s1) = formatRequest e
               [(''method'', JStr ''eth_sign''), (''params'', params)] s;
            (n, s2) = sendCallRequest e CallerAwait request s1
        in (Inr n, s2))"

definition signTypedData :: "env \<Rightarrow> json \<Rightarrow> connector \<Rightarrow> nat result" where
  "signTypedData e params s =
     (if \<not> p_connected s then (Inl (Error ''Session currently disconnected''), s)
      else
        let (request, s1) = formatRequest e
               [(''method'', JStr ''eth_signTypedData''), (''params'', params)] s;
            (n, s2) = sendCallRequest e CallerAwait request s1
        in (Inr n, s2))"

definition approveRequest :: "env \<Rightarrow> obj \<Rightarrow> connector \<Rightarrow> connector" where
  "approveRequest e response s = snd (sendResponse e (formatResponse response) s)"

definition rejectRequest :: "env \<Rightarrow> obj \<Rightarrow> connector \<Rightarrow> connector" where
  "rejectRequest e response s = snd (sendResponse e (formatResponse response) s)"

section \<open>Receiving\<close>

definition socketReceive :: "env \<Rightarrow> string \<Rightarrow> connector \<Rightarrow> unit result" where
  "socketReceive e data s =
     (case JSON_parse e data of
        None \<Rightarrow> (Inl SyntaxError, s)
      | Some socketMessage \<Rightarrow>
          let (cid, s1) = get_clientId e s;
              activeTopics = [JStr cid, JStr (p_handshakeTopic s1)]
          in if nullish socketMessage then (Inl TypeError, s1)
             else if jget socketMessage ''topic'' \<notin> set activeTopics then (Inr (), s1)
             else
               (case JSON_parse e (js_toString (jget socketMessage ''payload'')) of
                  None \<Rightarrow> (Inl SyntaxError, s1)
                | Some encryptionPayload \<Rightarrow>
                    (case decrypt e s1 encryptionPayload of
                       None \<Rightarrow> (Inr (), s1)
                     | Some payload' \<Rightarrow> triggerEvents (stackDepth e) e payload' s1)))"

section \<open>Construction\<close>

text \<open>\<^verbatim>\<open>IWalletConnectOptions\<close>: a string left out is empty, a session left out is \<open>None\<close>.\<close>

record opts =
  o_bridge :: string
  o_uri :: string
  o_session :: "session option"

definition initial :: "(string \<times> session) list option \<Rightarrow> connector" where
  "initial st =
     \<lparr>p_bridge = [], p_key = None, p_nextKey = None, p_clientId = [], p_clientMeta = JNull,
      p_peerId = JStr [], p_peerMeta = JNull, p_handshakeId = JNum 0, p_handshakeTopic = [],
      p_accounts = JArr [], p_chainId = JNum 0, p_socket = None, p_queue = [],
      p_eventEmitters = [], p_connected = False,
      storage = st, wire = [], promises = [], called = [], console = [], tick = 0\<rparr>"

text \<open>
  The constructor, on the storage it finds. \<^verbatim>\<open>_exchangeKey\<close> is asynchronous: it sets
  nothing before its first \<^verbatim>\<open>await\<close>, so its body runs after the constructor's own
  statements. The socket the constructor creates opens later (\<open>socket_onopen\<close>).
\<close>

definition constructor ::
  "env \<Rightarrow> opts \<Rightarrow> (string \<times> session) list option \<Rightarrow> unit result" where
  "constructor e opts st =
     (let s0 = initial st in
      if o_bridge opts = [] \<and> o_uri opts = [] \<and> o_session opts = None
      then (Inl (Error ''Missing one of two required parameters: bridge / uri / session''), s0)
      else
        let s1 = (if o_bridge opts \<noteq> [] then set_bridge (o_bridge opts) s0 else s0) in
        bind_r
          (if o_uri opts \<noteq> []
           then bind_r (set_uri e (o_uri opts) s1) (\<lambda>u s. (Inr (), subscribeToSessionRequest s))
           else (Inr (), s1))
          (\<lambda>u s2.
             let session = (case o_session opts of Some v \<Rightarrow> Some v
                            | None \<Rightarrow> getStorageSession s2);
                 s3 = (case session of Some v \<Rightarrow> set_session e v s2 | None \<Rightarrow> s2);
                 s4 = (if truthy (p_handshakeId s3)
                       then subscribeToSessionResponse (p_handshakeId s3)
                              ''Session request rejected'' s3
                       else s3);
                 s5 = subscribeToInternalEvents s4
             in (Inr (), case session of Some v \<Rightarrow> exchangeKey e s5 | None \<Rightarrow> s5)))"

section \<open>A concrete environment\<close>

text \<open>
  The theorems below hold for every environment. To run the model on concrete inputs,
  this section supplies one: a transparent crypto library whose envelope shows the key
  and the plaintext, hex and URI helpers that follow the formats the specification
  gives, and a JSON parser that reads back the texts of a given list of values.
\<close>

definition hexval :: "char \<Rightarrow> nat" where
  "hexval c =
     (let n = (of_char c :: nat) in
      if 48 \<le> n \<and> n \<le> 57 then n - 48
      else if 97 \<le> n \<and> n \<le> 102 then n - 87
      else if 65 \<le> n \<and> n \<le> 70 then n - 55
      else 16)"

fun unhex :: "string \<Rightarrow> bytes" where
  "unhex (h # l # r) = of_nat (16 * hexval h + hexval l) # unhex r"
| "unhex r = []"

definition hexdigit :: "nat \<Rightarrow> char" where
  "hexdigit n = ''0123456789abcdef'' ! n"

definition hex :: "bytes \<Rightarrow> string" where
  "hex bs = concat (map (\<lambda>w. [hexdigit (unat w div 16), hexdigit (unat w mod 16)]) bs)"

text \<open>
  Percent-decoding of escapes below \<open>0x80\<close>; a malformed escape is a URIError. Escapes
  of multi-byte characters are outside this decoder (it reports them as errors).
\<close>

fun pct_decode :: "string \<Rightarrow> string option" where
  "pct_decode [] = Some []"
| "pct_decode (c # cs) =
     (if c = CHR ''%'' then
        (case cs of
           h # l # r \<Rightarrow>
             (if hexval h < 8 \<and> hexval l < 16
              then map_option ((#) (char_of (16 * hexval h + hexval l))) (pct_decode r)
              else None)
         | _ \<Rightarrow> None)
      else map_option ((#) c) (pct_decode cs))"

definition split_on :: "char \<Rightarrow> string \<Rightarrow> string list" where
  "split_on c str = foldr (\<lambda>x acc. if x = c then [] # acc else (x # hd acc) # tl acc) str [[]]"

definition query_param :: "string \<Rightarrow> string \<Rightarrow> string" where
  "query_param k q =
     (case filter (\<lambda>p. takeWhile (\<lambda>c. c \<noteq> CHR ''='') p = k) (split_on (CHR ''&'') q) of
        [] \<Rightarrow> []
      | p # ps \<Rightarrow> drop 1 (dropWhile (\<lambda>c. c \<noteq> CHR ''='') p))"

definition read_nat :: "string \<Rightarrow> nat" where
  "read_nat ds = foldl (\<lambda>a c. 10 * a + hexval c) 0 ds"

text \<open>A decimal integer: one digit or more, and nothing else.\<close>

definition read_decimal :: "string \<Rightarrow> nat option" where
  "read_decimal ds =
     (if ds \<noteq> [] \<and> list_all (\<lambda>c. hexval c < 10) ds then Some (read_nat ds) else None)"

text \<open>The version component of a handshake URI: the text between \<^verbatim>\<open>@\<close> and \<^verbatim>\<open>?\<close>.\<close>

definition version_text :: "string \<Rightarrow> string" where
  "version_text str =
     (let rest = drop 1 (dropWhile (\<lambda>c. c \<noteq> CHR '':'') str);
          path = takeWhile (\<lambda>c. c \<noteq> CHR ''?'') rest
      in drop 1 (dropWhile (\<lambda>c. c \<noteq> CHR ''@'') path))"

text \<open>
  Modelled from the spec: \<^verbatim>\<open>parseWalletConnectUri\<close> of \<^verbatim>\<open>./utils\<close> is not part of
  the sources. This reader follows section 4.1: the format is
  \<^verbatim>\<open>wc:<handshakeTopic>@<version>?bridge=<url-encoded>&key=<hex>\<close>, the version is a
  decimal integer, currently 1, and unknown versions must be rejected; the error is
  the one section 7 names, \<^verbatim>\<open>InvalidUri\<close>. The bridge is left encoded, as \<^verbatim>\<open>_parseUri\<close>
  decodes it.
\<close>

definition parseWalletConnectUri_spec :: "string \<Rightarrow> error + parse_result" where
  "parseWalletConnectUri_spec str =
     (let rest = drop 1 (dropWhile (\<lambda>c. c \<noteq> CHR '':'') str);
          path = takeWhile (\<lambda>c. c \<noteq> CHR ''?'') rest;
          query = drop 1 (dropWhile (\<lambda>c. c \<noteq> CHR ''?'') rest)
      in if read_decimal (version_text str) = Some 1
         then Inr \<lparr>uri_protocol = takeWhile (\<lambda>c. c \<noteq> CHR '':'') str,
                   uri_handshakeTopic = takeWhile (\<lambda>c. c \<noteq> CHR ''@'') path,
                   uri_version = 1,
                   uri_bridge = query_param ''bridge'' query,
                   uri_key = query_param ''key'' query\<rparr>
         else Inl (Error ''InvalidUri''))"

fun show_json :: "json \<Rightarrow> string"
  and show_items :: "json list \<Rightarrow> string"
  and show_fields :: "(string \<times> json) list \<Rightarrow> string" where
  "show_json JUndefined = ''undefined''"
| "show_json JNull = ''null''"
| "show_json (JBool b) = (if b then ''true'' else ''false'')"
| "show_json (JNum n) = show_int n"
| "show_json (JStr s) = ''<'' @ s @ ''>''"
| "show_json (JArr xs) = ''['' @ show_items xs @ '']''"
| "show_json (JObj kvs) = ''{'' @ show_fields kvs @ ''}''"
| "show_items [] = []"
| "show_items (x # xs) = show_json x @ '','' @ show_items xs"
| "show_fields [] = []"
| "show_fields (kv # kvs) = fst kv @ '':'' @ show_json (snd kv) @ '','' @ show_fields kvs"

definition read_json :: "json list \<Rightarrow> string \<Rightarrow> json option" where
  "read_json known str = map_of (map (\<lambda>j. (show_json j, j)) known) str"

definition mock_crypto :: crypto where
  "mock_crypto =
     \<lparr>cl_generateKey = (\<lambda>n. [of_nat n, 0xAA]),
      cl_encrypt = (\<lambda>data k. JObj [(''key'', JStr (hex k)), (''data'', JObj data)]),
      cl_decrypt = (\<lambda>pl k. if jget pl ''key'' = JStr (hex k)
                             then (case jget pl ''data'' of JObj data \<Rightarrow> Some data | _ \<Rightarrow> None)
                             else None)\<rparr>"

definition mock_env :: "json list \<Rightarrow> env" where
  "mock_env known =
     \<lparr>cryptoLib = Some mock_crypto,
      uuid = (\<lambda>n. ''uuid-'' @ show_nat n),
      payloadId = (\<lambda>n. 1000 + int n),
      getMeta = JObj [(''name'', JStr ''dapp'')],
      convertHexToArrayBuffer = (\<lambda>v. case v of JStr str \<Rightarrow> unhex str | _ \<Rightarrow> []),
      convertArrayBufferToHex = hex,
      parseWalletConnectUri = parseWalletConnectUri_spec,
      decodeURIComponent = pct_decode,
      JSON_stringify = show_json,
      JSON_parse = read_json known,
      stackDepth = 8\<rparr>"

section \<open>Listener tables the connector builds\<close>

text \<open>
  The connector registers each of its own listeners under one event name: the three
  internal methods in the constructor, and the correlators of responses under
  \<^verbatim>\<open>response:<id>\<close>. A table is well formed when its own listeners sit under these
  names; the application's listeners may sit anywhere.
\<close>

definition callback_ok :: "string \<times> callback \<Rightarrow> bool" where
  "callback_ok em =
     (case snd em of
        SessionResponseCb errorMsg \<Rightarrow> take 9 (fst em) = ''response:''
      | CallResponseCb n \<Rightarrow> take 9 (fst em) = ''response:''
      | SessionRequestCb \<Rightarrow> fst em = ''wc_sessionRequest''
      | SessionUpdateCb \<Rightarrow> fst em = ''wc_sessionUpdate''
      | ExchangeKeyCb \<Rightarrow> fst em = ''wc_exchangeKey''
      | UserCb n \<Rightarrow> True)"

definition wf_emitters :: "connector \<Rightarrow> bool" where
  "wf_emitters s = list_all callback_ok (p_eventEmitters s)"

definition is_user :: "string \<times> callback \<Rightarrow> bool" where
  "is_user em = (case snd em of UserCb n \<Rightarrow> True | _ \<Rightarrow> False)"

section \<open>Concrete connectors\<close>

text \<open>
  A dApp connector constructed on a bridge alone, with an empty storage: it has no key
  yet, and its socket is not open.
\<close>

definition dapp0 :: connector where
  "dapp0 = snd (constructor (mock_env [])
      \<lparr>o_bridge = ''https://b.example'', o_uri = [], o_session = None\<rparr> (Some []))"

text \<open>Its socket opens.\<close>

definition dapp0_open :: connector where
  "dapp0_open = snd (socket_onopen (mock_env []) (socketOpen dapp0) dapp0)"

text \<open>The same connector after \<^verbatim>\<open>createSession\<close>: pending, with its session request queued.\<close>

definition dapp1 :: connector where
  "dapp1 = snd (createSession (mock_env []) dapp0)"

definition session_request_frame :: frame where
  "session_request_frame =
     \<lparr>topic = JStr ''uuid-3'', type = ''pub'',
      payload = show_json (cl_encrypt mock_crypto
        [(''id'', JNum 1002), (''jsonrpc'', JStr ''2.0''),
         (''method'', JStr ''wc_sessionRequest''),
         (''params'', JArr [JObj [(''peerId'', JStr ''uuid-1''),
            (''peerMeta'', JObj [(''name'', JStr ''dapp'')])]])] [0x00, 0xAA])\<rparr>"

text \<open>The socket of the pending connector opens.\<close>

definition dapp1_open :: connector where
  "dapp1_open = snd (socket_onopen (mock_env []) (socketOpen dapp1) dapp1)"

text \<open>The peer's approval of the session request (whose id is 1002), and the connector after it.\<close>

definition approval :: obj where
  "approval = [(''id'', JNum 1002), (''jsonrpc'', JStr ''2.0''),
      (''result'', JObj [(''approved'', JBool True), (''chainId'', JNum 1),
         (''accounts'', JArr [JStr ''0xabc''])])]"

definition dapp2 :: connector where
  "dapp2 = snd (triggerEvents 8 (mock_env []) approval dapp1)"

text \<open>
  The connected dApp registers a listener on \<^verbatim>\<open>call_request\<close> and sends a transaction:
  the request gets the id 1005 and the first promise.
\<close>

definition dapp3 :: connector where
  "dapp3 = snd (sendTransaction (mock_env [])
      (JObj [(''to'', JStr ''0x1''), (''value'', JStr ''0x0'')])
      (on ''call_request'' (UserCb 0) dapp2))"

definition transaction_frame :: frame where
  "transaction_frame =
     \<lparr>topic = JStr [], type = ''pub'',
      payload = show_json (cl_encrypt mock_crypto
        [(''id'', JNum 1005), (''jsonrpc'', JStr ''2.0''),
         (''method'', JStr ''eth_sendTransaction''),
         (''params'', JArr [JObj [(''to'', JStr ''0x1''), (''value'', JStr ''0x0'')]])]
        [0x00, 0xAA])\<rparr>"

definition error_response :: obj where
  "error_response = [(''id'', JNum 1005), (''jsonrpc'', JStr ''2.0''),
      (''error'', JObj [(''code'', JNum (- 32000)), (''message'', JStr ''rejected'')])]"

definition false_response :: obj where
  "false_response = [(''id'', JNum 1005), (''jsonrpc'', JStr ''2.0''), (''result'', JBool False)]"

definition hash_response :: obj where
  "hash_response = [(''id'', JNum 1005), (''jsonrpc'', JStr ''2.0''),
      (''result'', JStr ''0xdeadbeef'')]"

text \<open>A wallet connector constructed on the handshake URI of the specification's first scenario.\<close>

definition wallet0 :: connector where
  "wallet0 = snd (constructor (mock_env [])
      \<lparr>o_bridge = [], o_uri = ''wc:abc123@1?bridge=https%3A%2F%2Fb.example&key=deadbeef'',
       o_session = None\<rparr> (Some []))"

definition status1 :: obj where
  "status1 = [(''chainId'', JNum 1), (''accounts'', JArr [JStr ''0xabc''])]"

text \<open>
  Relay frames for the connected dApp \<open>dapp2\<close> (client id \<^verbatim>\<open>uuid-1\<close>, key \<^verbatim>\<open>00aa\<close>): one
  on a topic it does not listen to, and one on its own topic that carries a
  \<^verbatim>\<open>wc_sessionUpdate\<close> with \<^verbatim>\<open>approved: false\<close>; and a \<^verbatim>\<open>wc_exchangeKey\<close> request.
\<close>

definition foreign_frame :: json where
  "foreign_frame = JObj [(''topic'', JStr ''someone-else''), (''type'', JStr ''pub''),
      (''payload'', JStr ''x'')]"

definition kill_update :: obj where
  "kill_update = [(''id'', JNum 5), (''jsonrpc'', JStr ''2.0''),
      (''method'', JStr ''wc_sessionUpdate''),
      (''params'', JArr [JObj [(''approved'', JBool False), (''chainId'', JNull),
         (''accounts'', JNull), (''message'', JStr ''bye'')]])]"

definition kill_envelope :: json where
  "kill_envelope = cl_encrypt mock_crypto kill_update [0x00, 0xAA]"

definition kill_frame :: json where
  "kill_frame = JObj [(''topic'', JStr ''uuid-1''), (''type'', JStr ''pub''),
      (''payload'', JStr (show_json kill_envelope))]"

definition relay_env :: env where
  "relay_env = mock_env [foreign_frame, kill_frame, kill_envelope]"

definition exchange_request :: obj where
  "exchange_request = [(''id'', JNum 9), (''jsonrpc'', JStr ''2.0''),
      (''method'', JStr ''wc_exchangeKey''),
      (''params'', JArr [JObj [(''peerId'', JStr ''peer-1''), (''peerMeta'', JNull),
         (''nextKey'', JStr ''1122'')]])]"

text \<open>
  The connected dApp \<open>dapp2\<close> handles that request while its application answers a call
  of the peer. The handler starts: it stages the next key and begins to encrypt the
  acknowledgement (\<open>rotation1\<close>, \<open>ack_envelope\<close>). Before that encryption has settled, the
  application calls \<^verbatim>\<open>approveRequest\<close>, whose \<^verbatim>\<open>_sendResponse\<close> begins to encrypt in the
  same state (\<open>late_envelope\<close>). The handler's send resumes and emits the
  acknowledgement (\<open>rotation2\<close>); the handler resumes and swaps the keys (\<open>rotation3\<close>).
  Then the application's send resumes (\<open>rotation4\<close>).
\<close>

definition call_result :: obj where
  "call_result = [(''id'', JNum 7), (''result'', JStr ''0xsigned'')]"

definition ack_envelope :: "json option" where
  "ack_envelope =
     (case fst (handleExchangeKeyRequest_begin (mock_env []) exchange_request dapp2) of
        Inr x \<Rightarrow> x | Inl err \<Rightarrow> None)"

definition rotation1 :: connector where
  "rotation1 = snd (handleExchangeKeyRequest_begin (mock_env []) exchange_request dapp2)"

definition late_envelope :: "json option" where
  "late_envelope = sendResponse_begin (mock_env []) (formatResponse call_result) rotation1"

definition rotation2 :: connector where
  "rotation2 = snd (sendResponse_resume (mock_env []) ack_envelope rotation1)"

definition rotation3 :: connector where
  "rotation3 = snd (handleExchangeKeyRequest_resume (mock_env []) rotation2)"

definition rotation4 :: connector where
  "rotation4 = snd (sendResponse_resume (mock_env []) late_envelope rotation3)"

definition ack_frame :: frame where
  "ack_frame =
     \<lparr>topic = JStr ''peer-1'', type = ''pub'',
      payload = show_json (cl_encrypt mock_crypto
        [(''id'', JNum 9), (''jsonrpc'', JStr ''2.0''), (''result'', JBool True)] [0x00, 0xAA])\<rparr>"

definition late_frame :: frame where
  "late_frame =
     \<lparr>topic = JStr ''peer-1'', type = ''pub'',
      payload = show_json (cl_encrypt mock_crypto (formatResponse call_result) [0x00, 0xAA])\<rparr>"

section \<open>Basic facts\<close>

lemma bind_r_Inr [simp]: "bind_r (Inr a, s) f = f a s"
  by (simp add: bind_r_def)

lemma bind_r_Inl [simp]: "bind_r (Inl err, s) f = (Inl err, s)"
  by (simp add: bind_r_def)

lemma bind_r_ok: "fst m = Inr () \<Longrightarrow> bind_r m f = f () (snd m)"
  by (cases m) (auto simp: bind_r_def)

lemma has_Nil [simp]: "has k [] = False"
  by (simp add: has_def)

lemma has_Cons [simp]: "has k (kv # ob) = (k = fst kv \<or> has k ob)"
  by (cases kv) (auto simp: has_def)

lemma getp_Nil [simp]: "getp [] k = JUndefined"
  by (simp add: getp_def)

lemma getp_Cons [simp]: "getp (kv # ob) k = (if k = fst kv then snd kv else getp ob k)"
  by (cases kv) (simp add: getp_def)

lemma map_of_obj_set: "map_of (obj_set k v ob) = (map_of ob)(k \<mapsto> v)"
  by (induction ob) (auto simp: fun_eq_iff)

lemma getp_obj_set: "getp (obj_set k v ob) k' = (if k' = k then v else getp ob k')"
  by (simp add: getp_def map_of_obj_set)

lemma has_obj_set: "has k' (obj_set k v ob) = (k' = k \<or> has k' ob)"
  by (simp add: has_def map_of_obj_set)

lemma getp_spread_other:
  "\<not> has k ext \<Longrightarrow> getp (spread base ext) k = getp base k"
  unfolding spread_def
proof (induction ext arbitrary: base)
  case Nil
  then show ?case by simp
next
  case (Cons kv ext)
  from Cons.prems have ne: "k \<noteq> fst kv" and rest: "\<not> has k ext"
    by auto
  show ?case
    using Cons.IH [OF rest, of "obj_set (fst kv) (snd kv) base"] ne
    by (simp add: getp_obj_set)
qed

lemma has_spread_base: "has k base \<Longrightarrow> has k (spread base ext)"
  unfolding spread_def
  by (induction ext arbitrary: base) (auto simp: has_obj_set)

lemma triggerEvents_numeral:
  "triggerEvents (numeral n) e pl s =
     run_callbacks (invoke (triggerEvents (pred_numeral n) e) e)
       (select_emitters (event_of pl) (p_eventEmitters s)) pl s"
  by (simp add: numeral_eq_Suc)

subsection \<open>What each step leaves unchanged\<close>

lemma sendResponse_eq:
  "sendResponse e response s =
     (Inr (), let f = \<lparr>topic = p_peerId s, type = ''pub'',
                        payload = stringify_payload e (encrypt e s response)\<rparr>
              in if p_socket s \<noteq> None then s\<lparr>wire := wire s @ [f]\<rparr>
                 else s\<lparr>p_queue := p_queue s @ [f]\<rparr>)"
  by (auto simp: sendResponse_def sendResponse_begin_def sendResponse_resume_def socketSend_def
      setToQueue_def Let_def)

lemma sendResponse_with_key:
  assumes "cryptoLib e = Some cl" and "p_key s = Some k"
  shows "sendResponse e r s =
     (Inr (), let f = \<lparr>topic = p_peerId s, type = ''pub'',
                        payload = JSON_stringify e (cl_encrypt cl r k)\<rparr>
              in if p_socket s \<noteq> None then s\<lparr>wire := wire s @ [f]\<rparr>
                 else s\<lparr>p_queue := p_queue s @ [f]\<rparr>)"
  using assms by (simp add: sendResponse_eq encrypt_def stringify_payload_def)

lemma sendRequest_with_key:
  assumes "cryptoLib e = Some cl" and "p_key s = Some k"
  shows "sendRequest e r tp s =
     (Inr (), let t = snd (formatRequest e r s);
                  f = \<lparr>topic = js_or tp (p_peerId s), type = ''pub'',
                       payload = JSON_stringify e (cl_encrypt cl (fst (formatRequest e r s)) k)\<rparr>
              in if p_socket s \<noteq> None then t\<lparr>wire := wire s @ [f]\<rparr>
                 else t\<lparr>p_queue := p_queue s @ [f]\<rparr>)"
  using assms
  by (auto simp: sendRequest_def sendRequest_begin_def sendRequest_resume_def formatRequest_def
      socketSend_def setToQueue_def encrypt_def stringify_payload_def Let_def)

lemma socketSend_open:
  "p_socket s \<noteq> None \<Longrightarrow> socketSend f s = (Inr (), s\<lparr>wire := wire s @ [f]\<rparr>)"
  by (auto simp: socketSend_def)

lemma sendResponse_resume_eq:
  "sendResponse_resume e x s =
     (Inr (), let f = \<lparr>topic = p_peerId s, type = ''pub'', payload = stringify_payload e x\<rparr>
              in if p_socket s \<noteq> None then s\<lparr>wire := wire s @ [f]\<rparr>
                 else s\<lparr>p_queue := p_queue s @ [f]\<rparr>)"
  by (auto simp: sendResponse_resume_def socketSend_def setToQueue_def Let_def)

lemma send_begin_key:
  assumes "cryptoLib e = Some cl"
  shows "sendResponse_begin e r u =
           (case p_key u of Some k' \<Rightarrow> Some (cl_encrypt cl r k') | None \<Rightarrow> None)"
    and "fst (sendRequest_begin e r u) =
           (case p_key u of Some k' \<Rightarrow> Some (cl_encrypt cl (fst (formatRequest e r u)) k')
            | None \<Rightarrow> None)"
  using assms
  by (simp_all add: sendResponse_begin_def sendRequest_begin_def encrypt_def formatRequest_def
      split: option.splits)

lemma send_each_open:
  "p_socket s = Some sock \<Longrightarrow> send_each fs s = (Inr (), s\<lparr>wire := wire s @ fs\<rparr>)"
  by (induction fs arbitrary: s) (auto simp: socketSend_def)

lemma generateKey_keeps:
  "p_key (snd (generateKey e s)) = p_key s"
  "p_nextKey (snd (generateKey e s)) = p_nextKey s"
  "p_peerId (snd (generateKey e s)) = p_peerId s"
  "p_handshakeTopic (snd (generateKey e s)) = p_handshakeTopic s"
  "p_socket (snd (generateKey e s)) = p_socket s"
  "p_queue (snd (generateKey e s)) = p_queue s"
  "p_eventEmitters (snd (generateKey e s)) = p_eventEmitters s"
  "p_connected (snd (generateKey e s)) = p_connected s"
  "storage (snd (generateKey e s)) = storage s"
  "wire (snd (generateKey e s)) = wire s"
  by (simp_all add: generateKey_def split: option.splits)

lemma get_clientId_keeps:
  "p_key (snd (get_clientId e s)) = p_key s"
  "p_nextKey (snd (get_clientId e s)) = p_nextKey s"
  "p_peerId (snd (get_clientId e s)) = p_peerId s"
  "p_handshakeTopic (snd (get_clientId e s)) = p_handshakeTopic s"
  "p_socket (snd (get_clientId e s)) = p_socket s"
  "p_queue (snd (get_clientId e s)) = p_queue s"
  "p_eventEmitters (snd (get_clientId e s)) = p_eventEmitters s"
  "p_connected (snd (get_clientId e s)) = p_connected s"
  "storage (snd (get_clientId e s)) = storage s"
  "wire (snd (get_clientId e s)) = wire s"
  by (simp_all add: get_clientId_def)

lemma get_clientMeta_keeps:
  "p_key (snd (get_clientMeta e s)) = p_key s"
  "p_nextKey (snd (get_clientMeta e s)) = p_nextKey s"
  "p_peerId (snd (get_clientMeta e s)) = p_peerId s"
  "p_handshakeTopic (snd (get_clientMeta e s)) = p_handshakeTopic s"
  "p_socket (snd (get_clientMeta e s)) = p_socket s"
  "p_queue (snd (get_clientMeta e s)) = p_queue s"
  "p_eventEmitters (snd (get_clientMeta e s)) = p_eventEmitters s"
  "p_connected (snd (get_clientMeta e s)) = p_connected s"
  "storage (snd (get_clientMeta e s)) = storage s"
  "wire (snd (get_clientMeta e s)) = wire s"
  by (simp_all add: get_clientMeta_def)

lemma formatRequest_keeps:
  "p_key (snd (formatRequest e r s)) = p_key s"
  "p_nextKey (snd (formatRequest e r s)) = p_nextKey s"
  "p_peerId (snd (formatRequest e r s)) = p_peerId s"
  "p_handshakeTopic (snd (formatRequest e r s)) = p_handshakeTopic s"
  "p_socket (snd (formatRequest e r s)) = p_socket s"
  "p_queue (snd (formatRequest e r s)) = p_queue s"
  "p_eventEmitters (snd (formatRequest e r s)) = p_eventEmitters s"
  "p_connected (snd (formatRequest e r s)) = p_connected s"
  "storage (snd (formatRequest e r s)) = storage s"
  "wire (snd (formatRequest e r s)) = wire s"
  by (simp_all add: formatRequest_def)

lemma sendRequest_keeps:
  "p_key (snd (sendRequest e r tp s)) = p_key s"
  "p_nextKey (snd (sendRequest e r tp s)) = p_nextKey s"
  "p_peerId (snd (sendRequest e r tp s)) = p_peerId s"
  "p_handshakeTopic (snd (sendRequest e r tp s)) = p_handshakeTopic s"
  "p_socket (snd (sendRequest e r tp s)) = p_socket s"
  "p_eventEmitters (snd (sendRequest e r tp s)) = p_eventEmitters s"
  "p_connected (snd (sendRequest e r tp s)) = p_connected s"
  "storage (snd (sendRequest e r tp s)) = storage s"
  by (simp_all add: sendRequest_def sendRequest_begin_def sendRequest_resume_def
      formatRequest_def socketSend_def setToQueue_def Let_def split: option.splits)

lemma sendResponse_keeps:
  "p_key (snd (sendResponse e r s)) = p_key s"
  "p_nextKey (snd (sendResponse e r s)) = p_nextKey s"
  "p_peerId (snd (sendResponse e r s)) = p_peerId s"
  "p_handshakeTopic (snd (sendResponse e r s)) = p_handshakeTopic s"
  "p_socket (snd (sendResponse e r s)) = p_socket s"
  "p_eventEmitters (snd (sendResponse e r s)) = p_eventEmitters s"
  "p_connected (snd (sendResponse e r s)) = p_connected s"
  "storage (snd (sendResponse e r s)) = storage s"
  by (simp_all add: sendResponse_eq Let_def)

lemma sendSessionRequest_keeps:
  "p_key (sendSessionRequest e r msg tp s) = p_key s"
  "p_nextKey (sendSessionRequest e r msg tp s) = p_nextKey s"
  "p_peerId (sendSessionRequest e r msg tp s) = p_peerId s"
  "p_handshakeTopic (sendSessionRequest e r msg tp s) = p_handshakeTopic s"
  "p_socket (sendSessionRequest e r msg tp s) = p_socket s"
  "p_connected (sendSessionRequest e r msg tp s) = p_connected s"
  "storage (sendSessionRequest e r msg tp s) = storage s"
  by (simp_all add: sendSessionRequest_def subscribeToSessionResponse_def on_def sendRequest_keeps)

lemma setStorageSession_keeps:
  "p_key (snd (setStorageSession e s)) = p_key s"
  "p_nextKey (snd (setStorageSession e s)) = p_nextKey s"
  "p_peerId (snd (setStorageSession e s)) = p_peerId s"
  "p_handshakeTopic (snd (setStorageSession e s)) = p_handshakeTopic s"
  "p_socket (snd (setStorageSession e s)) = p_socket s"
  "p_queue (snd (setStorageSession e s)) = p_queue s"
  "p_eventEmitters (snd (setStorageSession e s)) = p_eventEmitters s"
  "p_connected (snd (setStorageSession e s)) = p_connected s"
  "wire (snd (setStorageSession e s)) = wire s"
  by (simp_all add: setStorageSession_def get_session_def get_clientId_def get_clientMeta_def
      Let_def split: option.splits)

lemma removeStorageSession_keeps:
  "p_key (removeStorageSession s) = p_key s"
  "p_nextKey (removeStorageSession s) = p_nextKey s"
  "p_peerId (removeStorageSession s) = p_peerId s"
  "p_handshakeTopic (removeStorageSession s) = p_handshakeTopic s"
  "p_socket (removeStorageSession s) = p_socket s"
  "p_queue (removeStorageSession s) = p_queue s"
  "p_eventEmitters (removeStorageSession s) = p_eventEmitters s"
  "p_connected (removeStorageSession s) = p_connected s"
  "wire (removeStorageSession s) = wire s"
  by (simp_all add: removeStorageSession_def split: option.splits)

lemma sendSessionRequest_emitters:
  "p_eventEmitters (sendSessionRequest e r msg tp s) =
     p_eventEmitters s @ [(''response:'' @ js_toString (getp r ''id''), SessionResponseCb msg)]"
  by (simp add: sendSessionRequest_def subscribeToSessionResponse_def on_def sendRequest_keeps)

lemma getStorageSession_remove: "getStorageSession (removeStorageSession s) = None"
  by (simp add: removeStorageSession_def getStorageSession_def delete_conv split: option.splits)

lemma swapKey_fields:
  "p_key (swapKey e s) = p_nextKey s"
  "p_nextKey (swapKey e s) = None"
  "wire (swapKey e s) = wire s"
  "p_queue (swapKey e s) = p_queue s"
  "p_socket (swapKey e s) = p_socket s"
  "p_peerId (swapKey e s) = p_peerId s"
  by (simp_all add: swapKey_def setStorageSession_keeps)

lemma decrypt_get_clientId: "decrypt e (snd (get_clientId e s)) enc = decrypt e s enc"
  by (simp add: decrypt_def get_clientId_keeps split: option.splits)

subsection \<open>Key exchange\<close>

lemma exchangeKey_nextKey_irrelevant:
  "exchangeKey e (s\<lparr>p_nextKey := k\<rparr>) = exchangeKey e s"
  by (simp add: exchangeKey_def generateKey_def split: option.splits)

text \<open>
  The request \<^verbatim>\<open>_exchangeKey\<close> formats keeps its id when \<^verbatim>\<open>_sendRequest\<close> formats it
  again: the spread of the request overrides the fresh id.
\<close>

lemma exchangeKey_fields:
  "(let s' = exchangeKey e s;
        n = tick (snd (get_clientId e (snd (generateKey e s))));
        request = [(''id'', JNum (payloadId e n)), (''jsonrpc'', JStr ''2.0''),
                   (''method'', JStr ''wc_exchangeKey''),
                   (''params'', JArr [JObj [(''peerId'', JStr (p_clientId s')),
                      (''peerMeta'', fst (get_clientMeta e s)),
                      (''nextKey'', JStr (get_nextKey e s'))]])];
        f = \<lparr>topic = p_peerId s, type = ''pub'',
             payload = stringify_payload e (encrypt e s request)\<rparr>
    in p_nextKey s' = fst (generateKey e s) \<and>
       p_key s' = p_key s \<and>
       (if p_socket s = None then wire s' = wire s \<and> p_queue s' = p_queue s @ [f]
        else wire s' = wire s @ [f] \<and> p_queue s' = p_queue s) \<and>
       p_eventEmitters s' = p_eventEmitters s @
         [(''response:'' @ js_toString (JNum (payloadId e n)),
           CallResponseCb (length (promises s)))] \<and>
       promises s' = promises s @ [(ExchangeKeyAwait, Pending)])"
proof (cases "cryptoLib e")
  case None
  then show ?thesis
    by (simp add: exchangeKey_def generateKey_def get_clientId_def get_clientMeta_def
      get_nextKey_def formatRequest_def sendCallRequest_def subscribeToCallResponse_def on_def
      sendRequest_def sendRequest_begin_def sendRequest_resume_def socketSend_open setToQueue_def
      encrypt_def spread_def js_or_def Let_def cong: option.case_cong)
next
  case (Some cl)
  then show ?thesis
    by (simp add: exchangeKey_def generateKey_def get_clientId_def get_clientMeta_def
      get_nextKey_def formatRequest_def sendCallRequest_def subscribeToCallResponse_def on_def
      sendRequest_def sendRequest_begin_def sendRequest_resume_def socketSend_open setToQueue_def
      encrypt_def spread_def js_or_def Let_def cong: option.case_cong)
qed

subsection \<open>The handshake URI\<close>

text \<open>\<^verbatim>\<open>_parseUri\<close> does not read the version of the helper's result.\<close>

lemma parseUri_ignores_version:
  "parseUri (e\<lparr>parseWalletConnectUri :=
       \<lambda>u. map_sum id (\<lambda>r. r\<lparr>uri_version := v\<rparr>) (parseWalletConnectUri e u)\<rparr>) uri
     = parseUri e uri"
  by (simp add: parseUri_def split: sum.splits option.splits)

subsection \<open>Dispatch of the connector's own events\<close>

lemma invoke_UserCb:
  "invoke trig e (UserCb n) pl s = (Inr (), s\<lparr>called := called s @ [(n, pl)]\<rparr>)"
  by (simp add: invoke_def)

lemma invoke_SessionUpdateCb:
  "invoke trig e SessionUpdateCb pl s =
     (if nullish (getp pl ''params'') then (Inl TypeError, s)
      else handleSessionResponse trig e (jidx0 (getp pl ''params'')) ''Session disconnected'' s)"
  by (simp add: invoke_def)

lemma callback_ok_response:
  "callback_ok (''response:'' @ x, SessionResponseCb msg)"
  "callback_ok (''response:'' @ x, CallResponseCb n)"
  by (simp_all add: callback_ok_def)

lemma run_callbacks_user:
  "list_all is_user xs \<Longrightarrow>
   \<exists>c. run_callbacks (invoke trig e) xs pl s = (Inr (), s\<lparr>called := c\<rparr>)"
proof (induction xs arbitrary: s)
  case Nil
  have "s = s\<lparr>called := called s\<rparr>" by simp
  then show ?case by (metis run_callbacks.simps(1))
next
  case (Cons em xs)
  then have em: "is_user em" and rest: "list_all is_user xs"
    by simp_all
  from em obtain n where n: "snd em = UserCb n"
    by (cases "snd em") (simp_all add: is_user_def)
  from Cons.IH [OF rest, of "s\<lparr>called := called s @ [(n, pl)]\<rparr>"]
  obtain c where "run_callbacks (invoke trig e) xs pl (s\<lparr>called := called s @ [(n, pl)]\<rparr>)
      = (Inr (), s\<lparr>called := c\<rparr>)"
    by auto
  then show ?case using n by (auto simp: invoke_UserCb)
qed

text \<open>
  The events the connector fires itself (\<^verbatim>\<open>connect\<close>, \<^verbatim>\<open>disconnect\<close>,
  \<^verbatim>\<open>session_update\<close>) reach application listeners only, in a well-formed table: under
  these names, and under \<^verbatim>\<open>call_request\<close>, the connector registers nothing.
\<close>

lemma select_synthetic_user:
  assumes "list_all callback_ok ems"
    and "ev \<in> {''connect'', ''disconnect'', ''session_update''}"
  shows "list_all is_user (select_emitters (JStr ev) ems)"
proof -
  have "is_user em" if "em \<in> set ems" and "fst em = ev \<or> fst em = ''call_request''" for em
  proof -
    from assms(1) that(1) have "callback_ok em" by (simp add: list_all_iff)
    with that(2) assms(2) show ?thesis
      by (auto simp: callback_ok_def is_user_def split: callback.splits)
  qed
  then show ?thesis
    by (auto simp: select_emitters_def list_all_iff Let_def)
qed

lemma triggerEvents_synthetic:
  assumes "wf_emitters s"
    and "ev \<in> {''connect'', ''disconnect'', ''session_update''}"
  shows "\<exists>c. triggerEvents (Suc d) e [(''event'', JStr ev), (''params'', ps)] s
           = (Inr (), s\<lparr>called := c\<rparr>)"
proof -
  have ev: "event_of [(''event'', JStr ev), (''params'', ps)] = JStr ev"
    by (simp add: event_of_def isRpcRequest_def isRpcResponse_def isInternalEvent_def)
  from assms have "list_all is_user (select_emitters (JStr ev) (p_eventEmitters s))"
    by (simp add: wf_emitters_def select_synthetic_user)
  from run_callbacks_user [OF this] show ?thesis
    by (simp add: ev)
qed

lemma triggerEvents_synthetic_keeps:
  assumes "0 < n" and "wf_emitters s"
    and "ev \<in> {''connect'', ''disconnect'', ''session_update''}"
  shows "fst (triggerEvents n e [(''event'', JStr ev), (''params'', ps)] s) = Inr ()"
    "p_key (snd (triggerEvents n e [(''event'', JStr ev), (''params'', ps)] s)) = p_key s"
    "p_nextKey (snd (triggerEvents n e [(''event'', JStr ev), (''params'', ps)] s)) = p_nextKey s"
    "p_peerId (snd (triggerEvents n e [(''event'', JStr ev), (''params'', ps)] s)) = p_peerId s"
    "p_handshakeTopic (snd (triggerEvents n e [(''event'', JStr ev), (''params'', ps)] s)) = p_handshakeTopic s"
    "p_socket (snd (triggerEvents n e [(''event'', JStr ev), (''params'', ps)] s)) = p_socket s"
    "p_queue (snd (triggerEvents n e [(''event'', JStr ev), (''params'', ps)] s)) = p_queue s"
    "p_eventEmitters (snd (triggerEvents n e [(''event'', JStr ev), (''params'', ps)] s)) = p_eventEmitters s"
    "p_connected (snd (triggerEvents n e [(''event'', JStr ev), (''params'', ps)] s)) = p_connected s"
    "storage (snd (triggerEvents n e [(''event'', JStr ev), (''params'', ps)] s)) = storage s"
    "wire (snd (triggerEvents n e [(''event'', JStr ev), (''params'', ps)] s)) = wire s"
proof -
  from assms(1) obtain d where d: "n = Suc d"
    by (cases n) auto
  from triggerEvents_synthetic [OF assms(2,3), of d e ps]
  obtain c where c: "triggerEvents n e [(''event'', JStr ev), (''params'', ps)] s
      = (Inr (), s\<lparr>called := c\<rparr>)"
    unfolding d by blast
  show "fst (triggerEvents n e [(''event'', JStr ev), (''params'', ps)] s) = Inr ()"
    by (simp add: c)
  show "p_key (snd (triggerEvents n e [(''event'', JStr ev), (''params'', ps)] s)) = p_key s"
    by (simp add: c)
  show "p_nextKey (snd (triggerEvents n e [(''event'', JStr ev), (''params'', ps)] s)) = p_nextKey s"
    by (simp add: c)
  show "p_peerId (snd (triggerEvents n e [(''event'', JStr ev), (''params'', ps)] s)) = p_peerId s"
    by (simp add: c)
  show "p_handshakeTopic (snd (triggerEvents n e [(''event'', JStr ev), (''params'', ps)] s)) = p_handshakeTopic s"
    by (simp add: c)
  show "p_socket (snd (triggerEvents n e [(''event'', JStr ev), (''params'', ps)] s)) = p_socket s"
    by (simp add: c)
  show "p_queue (snd (triggerEvents n e [(''event'', JStr ev), (''params'', ps)] s)) = p_queue s"
    by (simp add: c)
  show "p_eventEmitters (snd (triggerEvents n e [(''event'', JStr ev), (''params'', ps)] s)) = p_eventEmitters s"
    by (simp add: c)
  show "p_connected (snd (triggerEvents n e [(''event'', JStr ev), (''params'', ps)] s)) = p_connected s"
    by (simp add: c)
  show "storage (snd (triggerEvents n e [(''event'', JStr ev), (''params'', ps)] s)) = storage s"
    by (simp add: c)
  show "wire (snd (triggerEvents n e [(''event'', JStr ev), (''params'', ps)] s)) = wire s"
    by (simp add: c)
qed


subsection \<open>Session responses\<close>

lemma handleSessionResponse_approved:
  assumes "wf_emitters s" and "0 < n" and "\<not> nullish sp" and "truthy (jget sp ''approved'')"
  shows "\<exists>s'. handleSessionResponse (triggerEvents n e) e sp msg s = (Inr (), s') \<and>
           p_connected s' \<and> get_pending s' = get_pending s"
  using assms
  by (simp add: handleSessionResponse_def Let_def bind_r_ok triggerEvents_synthetic_keeps
      wf_emitters_def setStorageSession_keeps get_pending_def
      del: triggerEvents.simps)

lemma handleSessionResponse_rejected:
  assumes "wf_emitters s" and "0 < n" and "\<not> nullish sp" and "\<not> truthy (jget sp ''approved'')"
  shows "\<exists>s'. handleSessionResponse (triggerEvents n e) e sp msg s = (Inr (), s') \<and>
           \<not> p_connected s' \<and> getStorageSession s' = None \<and>
           p_eventEmitters s' = p_eventEmitters s"
  using assms
  by (simp add: handleSessionResponse_def Let_def bind_r_ok triggerEvents_synthetic_keeps
      wf_emitters_def removeStorageSession_keeps getStorageSession_remove
      del: triggerEvents.simps)

text \<open>
  Listeners of \<^verbatim>\<open>wc_sessionUpdate\<close>, run on a request whose first parameter is not
  approved: each run of the connector's own listener disconnects and erases the slot,
  and the application's listeners change neither.
\<close>

lemma run_callbacks_sessionUpdate:
  assumes "list_all (\<lambda>em. snd em = SessionUpdateCb \<or> is_user em) xs"
    and "wf_emitters s" and "0 < n"
    and "getp pl ''params'' = JArr (p0 # rest)" and "\<not> nullish p0"
    and "\<not> truthy (jget p0 ''approved'')"
  shows "\<exists>s'. run_callbacks (invoke (triggerEvents n e) e) xs pl s = (Inr (), s') \<and>
           p_eventEmitters s' = p_eventEmitters s \<and>
           (((\<exists>em \<in> set xs. snd em = SessionUpdateCb) \<or>
             (\<not> p_connected s \<and> getStorageSession s = None))
            \<longrightarrow> \<not> p_connected s' \<and> getStorageSession s' = None)"
  using assms(1,2)
proof (induction xs arbitrary: s)
  case Nil
  then show ?case by simp
next
  case (Cons em xs)
  from Cons.prems(1) have rest: "list_all (\<lambda>em. snd em = SessionUpdateCb \<or> is_user em) xs"
    and em: "snd em = SessionUpdateCb \<or> is_user em"
    by simp_all
  from em show ?case
  proof
    assume upd: "snd em = SessionUpdateCb"
    from handleSessionResponse_rejected [OF Cons.prems(2) assms(3,5,6), of e "''Session disconnected''"]
    obtain s1 where s1: "handleSessionResponse (triggerEvents n e) e p0 ''Session disconnected'' s
          = (Inr (), s1)"
      and off: "\<not> p_connected s1" "getStorageSession s1 = None"
      and ems: "p_eventEmitters s1 = p_eventEmitters s"
      by blast
    from ems Cons.prems(2) have wf1: "wf_emitters s1"
      by (simp add: wf_emitters_def)
    from Cons.IH [OF rest wf1] off ems
    obtain s' where "run_callbacks (invoke (triggerEvents n e) e) xs pl s1 = (Inr (), s')"
      and "p_eventEmitters s' = p_eventEmitters s"
      and "\<not> p_connected s' \<and> getStorageSession s' = None"
      by auto
    then show ?thesis
      using upd s1 assms(4) by (simp add: invoke_SessionUpdateCb)
  next
    assume "is_user em"
    then obtain k where k: "snd em = UserCb k"
      by (cases "snd em") (simp_all add: is_user_def)
    let ?s1 = "s\<lparr>called := called s @ [(k, pl)]\<rparr>"
    from Cons.prems(2) have wf1: "wf_emitters ?s1"
      by (simp add: wf_emitters_def)
    from Cons.IH [OF rest wf1]
    obtain s' where run: "run_callbacks (invoke (triggerEvents n e) e) xs pl ?s1 = (Inr (), s')"
      and ems: "p_eventEmitters s' = p_eventEmitters s"
      and post: "((\<exists>em \<in> set xs. snd em = SessionUpdateCb) \<or>
             (\<not> p_connected ?s1 \<and> getStorageSession ?s1 = None))
            \<longrightarrow> \<not> p_connected s' \<and> getStorageSession s' = None"
      by auto
    have "getStorageSession ?s1 = getStorageSession s"
      by (simp add: getStorageSession_def)
    with post k have "((\<exists>em \<in> set (em # xs). snd em = SessionUpdateCb) \<or>
             (\<not> p_connected s \<and> getStorageSession s = None))
            \<longrightarrow> \<not> p_connected s' \<and> getStorageSession s' = None"
      by auto
    with run ems k show ?thesis
      by (simp add: invoke_UserCb)
  qed
qed

lemma select_sessionUpdate:
  assumes "list_all callback_ok ems" and "(''wc_sessionUpdate'', SessionUpdateCb) \<in> set ems"
  shows "list_all (\<lambda>em. snd em = SessionUpdateCb \<or> is_user em)
           (select_emitters (JStr ''wc_sessionUpdate'') ems)"
    and "\<exists>em \<in> set (select_emitters (JStr ''wc_sessionUpdate'') ems). snd em = SessionUpdateCb"
proof -
  have sel: "select_emitters (JStr ''wc_sessionUpdate'') ems
      = filter (\<lambda>em. fst em = ''wc_sessionUpdate'') ems"
    using assms(2) by (auto simp: select_emitters_def Let_def filter_empty_conv)
  have "snd em = SessionUpdateCb \<or> is_user em"
    if "em \<in> set ems" and "fst em = ''wc_sessionUpdate''" for em
  proof -
    from assms(1) that(1) have "callback_ok em" by (simp add: list_all_iff)
    with that(2) show ?thesis
      by (auto simp: callback_ok_def is_user_def split: callback.splits)
  qed
  then show "list_all (\<lambda>em. snd em = SessionUpdateCb \<or> is_user em)
           (select_emitters (JStr ''wc_sessionUpdate'') ems)"
    by (auto simp: sel list_all_iff)
  show "\<exists>em \<in> set (select_emitters (JStr ''wc_sessionUpdate'') ems). snd em = SessionUpdateCb"
    using assms(2) by (force simp: sel)
qed

lemma triggerEvents_negative_update:
  assumes "wf_emitters s" and "1 < n"
    and "(''wc_sessionUpdate'', SessionUpdateCb) \<in> set (p_eventEmitters s)"
    and "getp pl ''method'' = JStr ''wc_sessionUpdate''"
    and "getp pl ''params'' = JArr (p0 # rest)" and "\<not> nullish p0"
    and "\<not> truthy (jget p0 ''approved'')"
  shows "\<exists>s'. triggerEvents n e pl s = (Inr (), s') \<and> \<not> p_connected s' \<and>
           getStorageSession s' = None"
proof -
  from assms(2) obtain d where d: "n = Suc d" and pos: "0 < d"
    by (cases n) auto
  from assms(4) have "has ''method'' pl"
    by (auto simp: has_def getp_def split: option.splits)
  with assms(4) have ev: "event_of pl = JStr ''wc_sessionUpdate''"
    by (simp add: event_of_def isRpcRequest_def)
  from assms(1) have ok: "list_all callback_ok (p_eventEmitters s)"
    by (simp add: wf_emitters_def)
  from run_callbacks_sessionUpdate [OF select_sessionUpdate(1) [OF ok assms(3)] assms(1) pos
      assms(5,6,7), of e]
    select_sessionUpdate(2) [OF ok assms(3)]
  show ?thesis
    by (auto simp: d ev)
qed

subsection \<open>Session operations\<close>

lemma createSession_pending:
  assumes "\<not> p_connected s" and "\<not> get_pending s" and "\<forall>n. uuid e n \<noteq> []"
  shows "\<exists>s'. createSession e s = (Inr (), s') \<and> get_pending s' \<and> \<not> p_connected s'"
  using assms
  by (simp add: createSession_def get_pending_def Let_def case_prod_beta
      setStorageSession_keeps sendSessionRequest_keeps formatRequest_keeps
      get_clientMeta_keeps get_clientId_keeps generateKey_keeps
      set_handshakeTopic_def set_handshakeId_def)

lemma approveSession_connected:
  assumes "\<not> p_connected s" and "wf_emitters s" and "0 < stackDepth e"
  shows "\<exists>s'. approveSession e st s = (Inr (), s') \<and> p_connected s' \<and>
           get_pending s' = get_pending s"
  using assms
  by (simp add: approveSession_def Let_def bind_r_ok triggerEvents_synthetic_keeps
      wf_emitters_def setStorageSession_keeps sendResponse_keeps get_pending_def
      del: triggerEvents.simps)

lemma killSession_erases:
  assumes "wf_emitters s" and "0 < stackDepth e" and "p_connected s"
  shows "\<exists>s'. killSession e sessionError s = (Inr (), s') \<and> \<not> p_connected s' \<and>
           getStorageSession s' = None"
  using assms
  by (simp add: killSession_def Let_def case_prod_beta bind_r_ok triggerEvents_synthetic_keeps
      wf_emitters_def sendSessionRequest_keeps sendSessionRequest_emitters formatRequest_keeps
      callback_ok_response [simplified] removeStorageSession_keeps getStorageSession_remove
      del: triggerEvents.simps)


section \<open>The concrete connectors, step by step\<close>

text \<open>
  The definitions of the model and of the concrete environment, as rewrite rules for
  running an operation on a concrete connector.
\<close>

lemmas model_defs =
  set_bridge_def set_key_def get_key_def set_nextKey_def get_nextKey_def set_clientId_def
  get_clientId_def set_peerId_def set_clientMeta_def get_clientMeta_def set_handshakeTopic_def
  set_handshakeId_def get_pending_def get_session_def set_session_def set_uri_def
  generateKey_def encrypt_def decrypt_def stringify_payload_def getStorageSession_def
  setStorageSession_def removeStorageSession_def socketSend_def setToQueue_def
  dispatchQueue_def socketOpen_def socket_onopen_def isRpcRequest_def isRpcResponse_def
  isInternalEvent_def formatRequest_def formatResponse_def on_def sendRequest_begin_def
  sendRequest_resume_def sendRequest_def sendResponse_begin_def sendResponse_resume_def
  sendResponse_def subscribeToSessionRequest_def subscribeToSessionResponse_def
  subscribeToCallResponse_def subscribeToInternalEvents_def sendSessionRequest_def
  sendCallRequest_def swapKey_def exchangeKey_def handleExchangeKeyRequest_begin_def
  handleExchangeKeyRequest_resume_def handleExchangeKeyRequest_def resolve_def
  reject_def handleSessionResponse_def invoke_def event_of_def select_emitters_def
  createSession_def approveSession_def sendTransaction_def approveRequest_def
  initial_def constructor_def spread_def js_or_def storageId_def triggerEvents_numeral Let_def

lemmas mock_defs =
  mock_env_def mock_crypto_def show_nat.simps show_digit_def show_int_def hex_def
  hexdigit_def hexval_def

lemma dapp0_eq:
  "dapp0 = (initial (Some []))
     \<lparr>p_bridge := ''https://b.example'',
      p_eventEmitters := [(''wc_sessionRequest'', SessionRequestCb),
         (''wc_sessionUpdate'', SessionUpdateCb), (''wc_exchangeKey'', ExchangeKeyCb)]\<rparr>"
  unfolding dapp0_def
  by (simp add: model_defs mock_defs cong: let_weak_cong)

lemma dapp1_eq:
  "dapp1 = dapp0
     \<lparr>p_key := Some [0x00, 0xAA], p_clientId := ''uuid-1'',
      p_clientMeta := JObj [(''name'', JStr ''dapp'')], p_handshakeId := JNum 1002,
      p_handshakeTopic := ''uuid-3'', p_queue := [session_request_frame],
      p_eventEmitters := p_eventEmitters dapp0 @
         [(''response:1002'', SessionResponseCb ''Session update rejected'')],
      storage := Some [(''walletconnect'',
         \<lparr>connected = False, accounts = JArr [], chainId = JNum 0,
          bridge = ''https://b.example'', key = ''00aa'', clientId = ''uuid-1'',
          clientMeta = JObj [(''name'', JStr ''dapp'')], peerId = JStr [], peerMeta = JNull,
          handshakeId = JNum 1002, handshakeTopic = ''uuid-3''\<rparr>)],
      tick := 5\<rparr>"
  unfolding dapp1_def dapp0_eq
  by (simp add: model_defs mock_defs session_request_frame_def
      del: show_json.simps cong: let_weak_cong)

lemma dapp1_open_eq:
  "dapp1_open = dapp1
     \<lparr>p_socket := Some ''wss://b.example'', p_queue := [],
      wire := [session_request_frame,
               \<lparr>topic = JStr ''uuid-1'', type = ''sub'', payload = []\<rparr>]\<rparr>"
  unfolding dapp1_open_def dapp1_eq dapp0_eq
  by (simp add: model_defs mock_defs cong: let_weak_cong)

lemma dapp2_eq:
  "dapp2 = dapp1
     \<lparr>p_accounts := JArr [JStr ''0xabc''], p_chainId := JNum 1, p_connected := True,
      storage := Some [(''walletconnect'',
         \<lparr>connected = True, accounts = JArr [JStr ''0xabc''], chainId = JNum 1,
          bridge = ''https://b.example'', key = ''00aa'', clientId = ''uuid-1'',
          clientMeta = JObj [(''name'', JStr ''dapp'')], peerId = JStr [], peerMeta = JNull,
          handshakeId = JNum 1002, handshakeTopic = ''uuid-3''\<rparr>)]\<rparr>"
  unfolding dapp2_def dapp1_eq dapp0_eq approval_def
  by (simp add: model_defs mock_defs cong: let_weak_cong)

lemma dapp3_eq:
  "dapp3 = dapp2
     \<lparr>p_queue := [session_request_frame, transaction_frame],
      p_eventEmitters := p_eventEmitters dapp2 @
         [(''call_request'', UserCb 0), (''response:1005'', CallResponseCb 0)],
      promises := [(CallerAwait, Pending)], tick := 7\<rparr>"
  unfolding dapp3_def dapp2_eq dapp1_eq dapp0_eq
  by (simp add: model_defs mock_defs transaction_frame_def
      del: show_json.simps cong: let_weak_cong)

lemma dapp0_open_eq:
  "dapp0_open = dapp0
     \<lparr>p_clientId := ''uuid-0'', p_socket := Some ''wss://b.example'',
      wire := [\<lparr>topic = JStr ''uuid-0'', type = ''sub'', payload = []\<rparr>], tick := 1\<rparr>"
  unfolding dapp0_open_def dapp0_eq
  by (simp add: model_defs mock_defs cong: let_weak_cong)

lemma parseUri_scenario:
  "parseUri (mock_env []) ''wc:abc123@1?bridge=https%3A%2F%2Fb.example&key=deadbeef''
     = Inr (''abc123'', ''https://b.example'', ''deadbeef'')"
  by code_simp

lemma wallet0_eq:
  "wallet0 = (initial (Some []))
     \<lparr>p_bridge := ''https://b.example'', p_key := Some [0xDE, 0xAD, 0xBE, 0xEF],
      p_handshakeTopic := ''abc123'',
      p_queue := [\<lparr>topic = JStr ''abc123'', type = ''sub'', payload = []\<rparr>],
      p_eventEmitters := [(''wc_sessionRequest'', SessionRequestCb),
         (''wc_sessionUpdate'', SessionUpdateCb), (''wc_exchangeKey'', ExchangeKeyCb)]\<rparr>"
  unfolding wallet0_def
  apply (simp add: model_defs parseUri_scenario cong: let_weak_cong)
  apply (simp add: mock_defs)
  done

lemma wf_emitters_dapp2: "wf_emitters dapp2"
  by (simp add: wf_emitters_def callback_ok_def dapp2_eq dapp1_eq dapp0_eq initial_def)

lemma rotation1_eq:
  "rotation1 = dapp2\<lparr>p_peerId := JStr ''peer-1'', p_peerMeta := JNull,
       p_nextKey := Some [0x11, 0x22]\<rparr>"
  "ack_envelope = Some (cl_encrypt mock_crypto
        [(''id'', JNum 9), (''jsonrpc'', JStr ''2.0''), (''result'', JBool True)] [0x00, 0xAA])"
  unfolding rotation1_def ack_envelope_def dapp2_eq dapp1_eq dapp0_eq exchange_request_def
  by (simp_all add: model_defs mock_env_def hexval_def initial_def cong: let_weak_cong)

lemma rotation2_eq:
  "rotation2 = rotation1\<lparr>p_queue := p_queue dapp2 @ [ack_frame]\<rparr>"
  unfolding rotation2_def sendResponse_resume_eq rotation1_eq
  by (simp add: stringify_payload_def ack_frame_def mock_env_def
      dapp2_eq dapp1_eq dapp0_eq initial_def)

lemma rotation3_eq:
  "p_key rotation3 = Some [0x11, 0x22]"
  "p_nextKey rotation3 = None"
  "p_queue rotation3 = p_queue dapp2 @ [ack_frame]"
  "wire rotation3 = wire dapp2"
  "p_peerId rotation3 = JStr ''peer-1''"
  "p_socket rotation3 = None"
  unfolding rotation3_def handleExchangeKeyRequest_resume_def rotation2_eq rotation1_eq
  by (simp_all add: swapKey_fields dapp2_eq dapp1_eq dapp0_eq initial_def)

lemma late_envelope_eq:
  "late_envelope = Some (cl_encrypt mock_crypto (formatResponse call_result) [0x00, 0xAA])"
  unfolding late_envelope_def rotation1_eq
  by (simp add: sendResponse_begin_def encrypt_def mock_env_def dapp2_eq dapp1_eq)

lemma relay_env_fields:
  "cryptoLib relay_env = Some mock_crypto"
  "stackDepth relay_env = 8"
  "uuid relay_env = uuid (mock_env [])"
  "relay_env\<lparr>cryptoLib := Some mock_crypto\<rparr> = relay_env"
  by (simp_all add: relay_env_def mock_env_def)


section \<open>Envelope codec: encryption without a key\<close>

text \<open>
  C1. With no key, encryption yields \<^verbatim>\<open>null\<close>; the claim is that no frame is then
  emitted. The connector \<open>dapp0\<close> has no key, before and after its socket opens. Its
  \<open>approveRequest\<close> and its \<open>sendRequest\<close>, before the socket opens, each append a
  frame with the payload \<^verbatim>\<open>null\<close> to the queue, and its \<open>sendRequest\<close>, after the socket
  has opened, sends such a frame on the socket.
\<close>

theorem send_without_key_emits_null_frame:
  "p_key dapp0 = None \<and> p_key dapp0_open = None \<and>
   encrypt (mock_env []) dapp0 (formatResponse [(''id'', JNum 1), (''result'', JStr ''0x'')]) = None \<and>
   p_queue (approveRequest (mock_env []) [(''id'', JNum 1), (''result'', JStr ''0x'')] dapp0) =
     [\<lparr>topic = JStr [], type = ''pub'', payload = ''null''\<rparr>] \<and>
   p_queue (snd (sendRequest (mock_env []) [(''method'', JStr ''eth_sign''), (''params'', JArr [])]
                  JUndefined dapp0)) =
     [\<lparr>topic = JStr [], type = ''pub'', payload = ''null''\<rparr>] \<and>
   wire (snd (sendRequest (mock_env []) [(''method'', JStr ''eth_sign''), (''params'', JArr [])]
               JUndefined dapp0_open)) =
     [\<lparr>topic = JStr ''uuid-0'', type = ''sub'', payload = []\<rparr>,
      \<lparr>topic = JStr [], type = ''pub'', payload = ''null''\<rparr>]"
  unfolding dapp0_open_eq dapp0_eq
  by (simp add: model_defs mock_defs cong: let_weak_cong)

section \<open>URI codec\<close>

text \<open>
  C6. \<^verbatim>\<open>_parseUri\<close> passes on what \<^verbatim>\<open>parseWalletConnectUri\<close> throws. On a result of the
  helper it succeeds exactly when the protocol is \<^verbatim>\<open>wc\<close>, the handshake topic, the bridge
  and the key are non-empty and the bridge can be URL-decoded, and it then returns the
  topic, the decoded bridge and the key; in every other case it fails with an error.
  With the helper the specification describes, a URI whose version component is not the
  decimal integer 1 is rejected with \<^verbatim>\<open>InvalidUri\<close>.
\<close>

theorem parseUri_checks:
  "(\<forall>r. parseWalletConnectUri e uri = Inr r \<longrightarrow>
      ((parseUri e uri = Inr (t, b, k)) =
         (uri_protocol r = ''wc'' \<and> uri_handshakeTopic r = t \<and> t \<noteq> [] \<and> uri_bridge r \<noteq> [] \<and>
          decodeURIComponent e (uri_bridge r) = Some b \<and> uri_key r = k \<and> k \<noteq> [])) \<and>
      ((\<exists>err. parseUri e uri = Inl err) =
         (uri_protocol r \<noteq> ''wc'' \<or> uri_handshakeTopic r = [] \<or> uri_bridge r = [] \<or>
          decodeURIComponent e (uri_bridge r) = None \<or> uri_key r = []))) \<and>
   (\<forall>err. parseWalletConnectUri e uri = Inl err \<longrightarrow> parseUri e uri = Inl err) \<and>
   (parseWalletConnectUri e = parseWalletConnectUri_spec \<longrightarrow>
      read_decimal (version_text uri) \<noteq> Some 1 \<longrightarrow>
      parseUri e uri = Inl (Error ''InvalidUri''))"
  by (auto simp: parseUri_def protocol_def parseWalletConnectUri_spec_def Let_def
      split: option.splits)

text \<open>
  C6, witness: the URI of the specification's first scenario parses to its three fields;
  the same URI with the protocol \<^verbatim>\<open>http\<close> is rejected; and so is the same URI with the
  version 2, and with no version.
\<close>

theorem parseUri_checks_witness:
  "parseUri (mock_env []) ''wc:abc123@1?bridge=https%3A%2F%2Fb.example&key=deadbeef''
     = Inr (''abc123'', ''https://b.example'', ''deadbeef'') \<and>
   (\<exists>err. parseUri (mock_env []) ''http:abc123@1?bridge=https%3A%2F%2Fb.example&key=deadbeef'' = Inl err) \<and>
   read_decimal (version_text ''wc:abc123@2?bridge=https%3A%2F%2Fb.example&key=deadbeef'') = Some 2 \<and>
   parseUri (mock_env []) ''wc:abc123@2?bridge=https%3A%2F%2Fb.example&key=deadbeef''
     = Inl (Error ''InvalidUri'') \<and>
   read_decimal (version_text ''wc:abc123@?bridge=https%3A%2F%2Fb.example&key=deadbeef'') = None \<and>
   parseUri (mock_env []) ''wc:abc123@?bridge=https%3A%2F%2Fb.example&key=deadbeef''
     = Inl (Error ''InvalidUri'')"
proof -
  let ?e = "mock_env []"
  let ?u1 = "''wc:abc123@1?bridge=https%3A%2F%2Fb.example&key=deadbeef''"
  let ?uh = "''http:abc123@1?bridge=https%3A%2F%2Fb.example&key=deadbeef''"
  let ?u2 = "''wc:abc123@2?bridge=https%3A%2F%2Fb.example&key=deadbeef''"
  let ?u0 = "''wc:abc123@?bridge=https%3A%2F%2Fb.example&key=deadbeef''"
  let ?r1 = "\<lparr>uri_protocol = ''wc'', uri_handshakeTopic = ''abc123'', uri_version = 1,
       uri_bridge = ''https%3A%2F%2Fb.example'', uri_key = ''deadbeef''\<rparr>"
  let ?rh = "\<lparr>uri_protocol = ''http'', uri_handshakeTopic = ''abc123'', uri_version = 1,
       uri_bridge = ''https%3A%2F%2Fb.example'', uri_key = ''deadbeef''\<rparr>"
  have p: "parseWalletConnectUri ?e = parseWalletConnectUri_spec"
    "decodeURIComponent ?e = pct_decode"
    by (simp_all add: mock_env_def)
  have a: "parseWalletConnectUri_spec ?u1 = Inr ?r1"
    by code_simp
  have b: "pct_decode ''https%3A%2F%2Fb.example'' = Some ''https://b.example''"
    by code_simp
  have c: "parseWalletConnectUri_spec ?uh = Inr ?rh"
    by code_simp
  have v2: "read_decimal (version_text ?u2) = Some 2"
    by code_simp
  have v0: "read_decimal (version_text ?u0) = None"
    by code_simp
  note T1 = parseUri_checks [of ?e ?u1 "''abc123''" "''https://b.example''" "''deadbeef''"]
  note Th = parseUri_checks [of ?e ?uh "''abc123''" "''https://b.example''" "''deadbeef''"]
  note T2 = parseUri_checks [of ?e ?u2 "''abc123''" "''https://b.example''" "''deadbeef''"]
  note T0 = parseUri_checks [of ?e ?u0 "''abc123''" "''https://b.example''" "''deadbeef''"]
  have g1: "parseUri ?e ?u1 = Inr (''abc123'', ''https://b.example'', ''deadbeef'')"
    using conjunct1 [OF T1, rule_format, of ?r1] a b by (simp add: p)
  have gh: "\<exists>err. parseUri ?e ?uh = Inl err"
    using conjunct1 [OF Th, rule_format, of ?rh] c by (simp add: p)
  have g2: "parseUri ?e ?u2 = Inl (Error ''InvalidUri'')"
    using conjunct2 [OF conjunct2 [OF T2], rule_format] v2 by (simp add: p)
  have g0: "parseUri ?e ?u0 = Inl (Error ''InvalidUri'')"
    using conjunct2 [OF conjunct2 [OF T0], rule_format] v0 by (simp add: p)
  show ?thesis
    using g1 gh v2 g2 v0 g0 by simp
qed

section \<open>Relay transport\<close>

text \<open>
  C4, as amended. When the socket opens, the connector sends the frames queued so far in
  the order they were queued and then, last, the subscribe frame for its \<^verbatim>\<open>clientId\<close>;
  the queue is empty afterwards.
\<close>

theorem socket_onopen_sub_frame_last:
  "\<exists>s'. socket_onopen e sock s = (Inr (), s') \<and>
     wire s' = wire s @ p_queue s @
       [\<lparr>topic = JStr (fst (get_clientId e s)), type = ''sub'', payload = []\<rparr>] \<and>
     p_queue s' = [] \<and> p_socket s' = Some sock"
  by (simp add: socket_onopen_def dispatchQueue_def get_clientId_def setToQueue_def
      send_each_open Let_def)

text \<open>
  C4, counterexample to the claim as stated: the pending dApp \<open>dapp1\<close> has queued its
  session request; when its socket opens, the session request is sent first and the
  subscribe frame for the client id after it.
\<close>

theorem socket_onopen_sub_frame_not_first:
  "p_queue dapp1 = [session_request_frame] \<and> p_clientId dapp1 = ''uuid-1'' \<and>
   type session_request_frame = ''pub'' \<and>
   wire dapp1_open =
     [session_request_frame, \<lparr>topic = JStr ''uuid-1'', type = ''sub'', payload = []\<rparr>] \<and>
   hd (wire dapp1_open) \<noteq> \<lparr>topic = JStr ''uuid-1'', type = ''sub'', payload = []\<rparr>"
  by (simp add: dapp1_open_eq dapp1_eq session_request_frame_def)

text \<open>
  C9. A frame that parses, whose topic is neither the client id nor the handshake topic,
  received by a connector whose client id is set (as it is once the socket has opened):
  the receive path returns the connector as it was, whatever the crypto library, so
  nothing was decrypted and no listener ran.
\<close>

theorem socketReceive_drops_foreign_topic:
  assumes "JSON_parse e data = Some socketMessage"
    and "\<not> nullish socketMessage"
    and "p_clientId s \<noteq> []"
    and "jget socketMessage ''topic'' \<notin> {JStr (p_clientId s), JStr (p_handshakeTopic s)}"
  shows "socketReceive (e\<lparr>cryptoLib := c\<rparr>) data s = (Inr (), s)"
  using assms by (simp add: socketReceive_def get_clientId_def)

text \<open>
  C9, witness: the connected dApp \<open>dapp2\<close> (client id \<^verbatim>\<open>uuid-1\<close>, handshake topic
  \<^verbatim>\<open>uuid-3\<close>) receives a frame on the topic \<^verbatim>\<open>someone-else\<close>.
\<close>

theorem socketReceive_drops_foreign_topic_witness:
  "JSON_parse relay_env (show_json foreign_frame) = Some foreign_frame \<and>
   \<not> nullish foreign_frame \<and> p_clientId dapp2 \<noteq> [] \<and>
   jget foreign_frame ''topic'' \<notin> {JStr (p_clientId dapp2), JStr (p_handshakeTopic dapp2)} \<and>
   socketReceive relay_env (show_json foreign_frame) dapp2 = (Inr (), dapp2)"
proof -
  have h1: "JSON_parse relay_env (show_json foreign_frame) = Some foreign_frame"
    by code_simp
  have h2: "\<not> nullish foreign_frame"
    by (simp add: foreign_frame_def)
  have h3: "p_clientId dapp2 \<noteq> []"
    by (simp add: dapp2_eq dapp1_eq)
  have h4: "jget foreign_frame ''topic'' \<notin> {JStr (p_clientId dapp2), JStr (p_handshakeTopic dapp2)}"
    by (simp add: foreign_frame_def dapp2_eq dapp1_eq)
  from socketReceive_drops_foreign_topic [OF h1 h2 h3 h4, of "Some mock_crypto"]
  show ?thesis
    using h1 h2 h3 h4 by (simp add: relay_env_fields)
qed

section \<open>Key manager\<close>

text \<open>
  C3, as amended. Nothing guards against an exchange in flight: \<^verbatim>\<open>_exchangeKey\<close> does
  the same whatever next key was staged before. It stages the key it generates, leaves
  the current key in place, and emits one frame, sent when the socket is open and queued
  otherwise: the \<^verbatim>\<open>wc_exchangeKey\<close> request, which carries the client id, the client
  meta and the newly staged key and is encrypted under the current key, on the topic of
  the peer. It registers the correlator of the response to that request, with a new
  pending promise.
\<close>

theorem exchangeKey_overwrites_nextKey:
  "(let s' = exchangeKey e s;
        n = tick (snd (get_clientId e (snd (generateKey e s))));
        request = [(''id'', JNum (payloadId e n)), (''jsonrpc'', JStr ''2.0''),
                   (''method'', JStr ''wc_exchangeKey''),
                   (''params'', JArr [JObj [(''peerId'', JStr (p_clientId s')),
                      (''peerMeta'', fst (get_clientMeta e s)),
                      (''nextKey'', JStr (get_nextKey e s'))]])];
        f = \<lparr>topic = p_peerId s, type = ''pub'',
             payload = stringify_payload e (encrypt e s request)\<rparr>
    in exchangeKey e (s\<lparr>p_nextKey := k\<rparr>) = s' \<and>
       p_nextKey s' = fst (generateKey e s) \<and>
       p_key s' = p_key s \<and>
       (if p_socket s = None then wire s' = wire s \<and> p_queue s' = p_queue s @ [f]
        else wire s' = wire s @ [f] \<and> p_queue s' = p_queue s) \<and>
       p_eventEmitters s' = p_eventEmitters s @
         [(''response:'' @ js_toString (JNum (payloadId e n)),
           CallResponseCb (length (promises s)))] \<and>
       promises s' = promises s @ [(ExchangeKeyAwait, Pending)])"
proof -
  note fields = exchangeKey_fields [of e s, unfolded Let_def]
  show ?thesis
    unfolding Let_def by (rule conjI [OF exchangeKey_nextKey_irrelevant fields])
qed

text \<open>
  C3, counterexample to the claim as stated: the connected dApp \<open>dapp2\<close> starts a key
  exchange, which stages a next key, and then a second one while the first is in flight:
  the staged key is replaced and a second request is queued.
\<close>

theorem exchangeKey_twice:
  "p_nextKey (exchangeKey (mock_env []) dapp2) = Some [0x05, 0xAA] \<and>
   p_nextKey (exchangeKey (mock_env []) (exchangeKey (mock_env []) dapp2)) = Some [0x08, 0xAA] \<and>
   length (p_queue (exchangeKey (mock_env []) dapp2)) = 2 \<and>
   length (p_queue (exchangeKey (mock_env []) (exchangeKey (mock_env []) dapp2))) = 3"
  unfolding dapp2_eq dapp1_eq dapp0_eq
  by (simp add: model_defs mock_defs del: show_json.simps cong: let_weak_cong)




section \<open>Session state machine\<close>

text \<open>
  C5, as amended. The \<^verbatim>\<open>pending\<close> getter is exactly ``the handshake topic is
  non-empty''. In a connector with a well-formed listener table: \<^verbatim>\<open>createSession\<close>, from
  a connector that is neither connected nor pending, leaves it pending and not
  connected; \<^verbatim>\<open>approveSession\<close>, and a session response that approves, return with
  the connector connected and with \<^verbatim>\<open>pending\<close> as it was before, so a connector that was
  pending is then both pending and connected.
\<close>

theorem pending_and_connected_transitions:
  assumes "wf_emitters s" and "0 < stackDepth e"
  shows "get_pending s = (p_handshakeTopic s \<noteq> []) \<and>
         (\<not> p_connected s \<and> \<not> get_pending s \<and> (\<forall>n. uuid e n \<noteq> []) \<longrightarrow>
            (\<exists>s'. createSession e s = (Inr (), s') \<and> get_pending s' \<and> \<not> p_connected s')) \<and>
         (\<not> p_connected s \<longrightarrow>
            (\<exists>s'. approveSession e sessionStatus s = (Inr (), s') \<and> p_connected s' \<and>
                  get_pending s' = get_pending s)) \<and>
         (\<not> nullish sessionParams \<and> truthy (jget sessionParams ''approved'') \<longrightarrow>
            (\<exists>s'. handleSessionResponse (triggerEvents (stackDepth e) e) e sessionParams errorMsg s
                    = (Inr (), s') \<and> p_connected s' \<and> get_pending s' = get_pending s))"
  using assms
  by (simp add: get_pending_def [symmetric] createSession_pending approveSession_connected
      handleSessionResponse_approved del: triggerEvents.simps)

text \<open>
  C5, witness: \<^verbatim>\<open>createSession\<close> and \<^verbatim>\<open>approveSession\<close> on the fresh dApp \<open>dapp0\<close>, and
  the peer's approval handled by the pending dApp \<open>dapp1\<close>.
\<close>

theorem pending_and_connected_transitions_witness:
  "wf_emitters dapp0 \<and> wf_emitters dapp1 \<and> 0 < stackDepth (mock_env []) \<and>
   \<not> p_connected dapp0 \<and> \<not> get_pending dapp0 \<and> (\<forall>n. uuid (mock_env []) n \<noteq> []) \<and>
   fst (createSession (mock_env []) dapp0) = Inr () \<and>
   get_pending (snd (createSession (mock_env []) dapp0)) \<and>
   \<not> p_connected (snd (createSession (mock_env []) dapp0)) \<and>
   fst (approveSession (mock_env []) status1 dapp0) = Inr () \<and>
   p_connected (snd (approveSession (mock_env []) status1 dapp0)) \<and>
   \<not> get_pending (snd (approveSession (mock_env []) status1 dapp0)) \<and>
   get_pending dapp1 \<and>
   p_connected (snd (handleSessionResponse (triggerEvents 8 (mock_env [])) (mock_env [])
      (getp approval ''result'') ''Session update rejected'' dapp1)) \<and>
   get_pending (snd (handleSessionResponse (triggerEvents 8 (mock_env [])) (mock_env [])
      (getp approval ''result'') ''Session update rejected'' dapp1))"
proof -
  have wf0: "wf_emitters dapp0" and wf1: "wf_emitters dapp1"
    by (simp_all add: wf_emitters_def callback_ok_def dapp1_eq dapp0_eq initial_def)
  have d: "0 < stackDepth (mock_env [])" "stackDepth (mock_env []) = 8"
    by (simp_all add: mock_env_def)
  have s0: "\<not> p_connected dapp0" "\<not> get_pending dapp0"
    by (simp_all add: get_pending_def dapp0_eq initial_def)
  have u: "\<forall>n. uuid (mock_env []) n \<noteq> []"
    by (simp add: mock_env_def)
  have p1: "get_pending dapp1"
    by (simp add: get_pending_def dapp1_eq)
  have a: "\<not> nullish (getp approval ''result'')" "truthy (jget (getp approval ''result'') ''approved'')"
    by (simp_all add: approval_def)
  note T0 = pending_and_connected_transitions [OF wf0 d(1), where sessionStatus = status1]
  note T1 = pending_and_connected_transitions [OF wf1 d(1),
      where sessionParams = "getp approval ''result''"
        and errorMsg = "''Session update rejected''"]
  have c1: "\<exists>s'. createSession (mock_env []) dapp0 = (Inr (), s') \<and> get_pending s' \<and>
      \<not> p_connected s'"
    by (rule mp [OF conjunct1 [OF conjunct2 [OF T0]]]) (simp add: s0 u)
  have c2: "\<exists>s'. approveSession (mock_env []) status1 dapp0 = (Inr (), s') \<and> p_connected s' \<and>
      get_pending s' = get_pending dapp0"
    by (rule mp [OF conjunct1 [OF conjunct2 [OF conjunct2 [OF T0]]]]) (simp add: s0)
  have c3: "\<exists>s'. handleSessionResponse (triggerEvents (stackDepth (mock_env [])) (mock_env []))
      (mock_env []) (getp approval ''result'') ''Session update rejected'' dapp1 = (Inr (), s') \<and>
      p_connected s' \<and> get_pending s' = get_pending dapp1"
    by (rule mp [OF conjunct2 [OF conjunct2 [OF conjunct2 [OF T1]]]]) (simp add: a)
  from c1 obtain t1 where t1: "createSession (mock_env []) dapp0 = (Inr (), t1)"
    "get_pending t1" "\<not> p_connected t1"
    by (elim exE conjE)
  from c2 obtain t2 where t2: "approveSession (mock_env []) status1 dapp0 = (Inr (), t2)"
    "p_connected t2" "get_pending t2 = get_pending dapp0"
    by (elim exE conjE)
  from c3 [unfolded d(2)]
  obtain t3 where t3: "handleSessionResponse (triggerEvents 8 (mock_env [])) (mock_env [])
      (getp approval ''result'') ''Session update rejected'' dapp1 = (Inr (), t3)"
    "p_connected t3" "get_pending t3 = get_pending dapp1"
    by (elim exE conjE)
  show ?thesis
    by (simp only: t1 t2 t3 fst_conv snd_conv wf0 wf1 d(1) s0 u p1 simp_thms)
qed

text \<open>
  C5, counterexample to the claim as stated: the wallet \<open>wallet0\<close>, constructed on a
  handshake URI, approves the session; and the dApp \<open>dapp2\<close> has created a session and
  handled the peer's approval. Both are pending and connected.
\<close>

theorem pending_and_connected_together:
  "fst (approveSession (mock_env []) status1 wallet0) = Inr () \<and>
   get_pending (snd (approveSession (mock_env []) status1 wallet0)) \<and>
   p_connected (snd (approveSession (mock_env []) status1 wallet0)) \<and>
   get_pending dapp2 \<and> p_connected dapp2"
proof -
  have "fst (approveSession (mock_env []) status1 wallet0) = Inr () \<and>
   get_pending (snd (approveSession (mock_env []) status1 wallet0)) \<and>
   p_connected (snd (approveSession (mock_env []) status1 wallet0))"
    unfolding wallet0_eq status1_def
    by (simp add: model_defs mock_defs del: show_json.simps cong: let_weak_cong)
  moreover have "get_pending dapp2 \<and> p_connected dapp2"
    by (simp add: get_pending_def dapp2_eq dapp1_eq)
  ultimately show ?thesis by simp
qed

text \<open>
  C8. In a connector with a well-formed listener table: \<^verbatim>\<open>killSession\<close>, from a
  connected state, returns with the connector not connected and the storage slot empty;
  and so does the receive path on a frame that parses, is on an active topic and
  decrypts to a \<^verbatim>\<open>wc_sessionUpdate\<close> request whose first parameter is not approved,
  when the constructor's listener of \<^verbatim>\<open>wc_sessionUpdate\<close> is in the table.
\<close>

theorem kill_and_negative_update_erase_session:
  assumes "wf_emitters s" and "1 < stackDepth e"
  shows "(p_connected s \<longrightarrow>
            (\<exists>s'. killSession e sessionError s = (Inr (), s') \<and> \<not> p_connected s' \<and>
                  getStorageSession s' = None)) \<and>
         (JSON_parse e data = Some socketMessage \<and> \<not> nullish socketMessage \<and>
          jget socketMessage ''topic'' \<in>
            {JStr (fst (get_clientId e s)), JStr (p_handshakeTopic s)} \<and>
          JSON_parse e (js_toString (jget socketMessage ''payload'')) = Some encryptionPayload \<and>
          decrypt e s encryptionPayload = Some pl \<and>
          (''wc_sessionUpdate'', SessionUpdateCb) \<in> set (p_eventEmitters s) \<and>
          getp pl ''method'' = JStr ''wc_sessionUpdate'' \<and>
          getp pl ''params'' = JArr (p0 # rest) \<and> \<not> nullish p0 \<and>
          \<not> truthy (jget p0 ''approved'') \<longrightarrow>
            (\<exists>s'. socketReceive e data s = (Inr (), s') \<and> \<not> p_connected s' \<and>
                  getStorageSession s' = None))"
proof (intro conjI impI)
  assume "p_connected s"
  with assms show "\<exists>s'. killSession e sessionError s = (Inr (), s') \<and> \<not> p_connected s' \<and>
      getStorageSession s' = None"
    by (simp add: killSession_erases)
next
  assume h: "JSON_parse e data = Some socketMessage \<and> \<not> nullish socketMessage \<and>
          jget socketMessage ''topic'' \<in>
            {JStr (fst (get_clientId e s)), JStr (p_handshakeTopic s)} \<and>
          JSON_parse e (js_toString (jget socketMessage ''payload'')) = Some encryptionPayload \<and>
          decrypt e s encryptionPayload = Some pl \<and>
          (''wc_sessionUpdate'', SessionUpdateCb) \<in> set (p_eventEmitters s) \<and>
          getp pl ''method'' = JStr ''wc_sessionUpdate'' \<and>
          getp pl ''params'' = JArr (p0 # rest) \<and> \<not> nullish p0 \<and>
          \<not> truthy (jget p0 ''approved'')"
  let ?s1 = "snd (get_clientId e s)"
  from assms(1) have wf1: "wf_emitters ?s1"
    by (simp add: wf_emitters_def get_clientId_keeps)
  from h have reg: "(''wc_sessionUpdate'', SessionUpdateCb) \<in> set (p_eventEmitters ?s1)"
    by (simp add: get_clientId_keeps)
  from triggerEvents_negative_update [OF wf1 assms(2) reg, of pl p0 rest e] h
  obtain s' where "triggerEvents (stackDepth e) e pl ?s1 = (Inr (), s')"
    and "\<not> p_connected s'" and "getStorageSession s' = None"
    by blast
  with h show "\<exists>s'. socketReceive e data s = (Inr (), s') \<and> \<not> p_connected s' \<and>
      getStorageSession s' = None"
    by (auto simp: socketReceive_def Let_def case_prod_beta decrypt_get_clientId
        get_clientId_keeps simp del: triggerEvents.simps)
qed

text \<open>
  C8, witness: the connected dApp \<open>dapp2\<close>, whose storage slot is filled, kills its
  session; and it receives the frame \<open>kill_frame\<close>, which carries a \<^verbatim>\<open>wc_sessionUpdate\<close>
  with \<^verbatim>\<open>approved: false\<close>.
\<close>

theorem kill_and_negative_update_erase_session_witness:
  "wf_emitters dapp2 \<and> 1 < stackDepth relay_env \<and> p_connected dapp2 \<and>
   getStorageSession dapp2 \<noteq> None \<and>
   fst (killSession relay_env JUndefined dapp2) = Inr () \<and>
   \<not> p_connected (snd (killSession relay_env JUndefined dapp2)) \<and>
   getStorageSession (snd (killSession relay_env JUndefined dapp2)) = None \<and>
   JSON_parse relay_env (show_json kill_frame) = Some kill_frame \<and>
   decrypt relay_env dapp2 kill_envelope = Some kill_update \<and>
   fst (socketReceive relay_env (show_json kill_frame) dapp2) = Inr () \<and>
   \<not> p_connected (snd (socketReceive relay_env (show_json kill_frame) dapp2)) \<and>
   getStorageSession (snd (socketReceive relay_env (show_json kill_frame) dapp2)) = None"
proof -
  let ?p0 = "JObj [(''approved'', JBool False), (''chainId'', JNull), (''accounts'', JNull),
      (''message'', JStr ''bye'')]"
  have d: "1 < stackDepth relay_env"
    by (simp add: relay_env_fields)
  have c: "p_connected dapp2" "getStorageSession dapp2 \<noteq> None"
    by (simp_all add: getStorageSession_def storageId_def dapp2_eq dapp1_eq)
  have h1: "JSON_parse relay_env (show_json kill_frame) = Some kill_frame"
    by code_simp
  have h2: "\<not> nullish kill_frame"
    by (simp add: kill_frame_def)
  have h3: "jget kill_frame ''topic'' \<in>
      {JStr (fst (get_clientId relay_env dapp2)), JStr (p_handshakeTopic dapp2)}"
    by (simp add: kill_frame_def get_clientId_def dapp2_eq dapp1_eq)
  have h4: "JSON_parse relay_env (js_toString (jget kill_frame ''payload'')) = Some kill_envelope"
    by code_simp
  have h5: "decrypt relay_env dapp2 kill_envelope = Some kill_update"
    by (simp add: decrypt_def relay_env_fields dapp2_eq dapp1_eq mock_crypto_def
        kill_envelope_def hex_def hexdigit_def)
  have h6: "(''wc_sessionUpdate'', SessionUpdateCb) \<in> set (p_eventEmitters dapp2)"
    by (simp add: dapp2_eq dapp1_eq dapp0_eq)
  have h7: "getp kill_update ''method'' = JStr ''wc_sessionUpdate''"
    "getp kill_update ''params'' = JArr (?p0 # [])" "\<not> nullish ?p0"
    "\<not> truthy (jget ?p0 ''approved'')"
    by (simp_all add: kill_update_def)
  from kill_and_negative_update_erase_session [OF wf_emitters_dapp2 d,
      of JUndefined "show_json kill_frame" kill_frame kill_envelope kill_update ?p0 "[]"]
    c(1) h1 h2 h3 h4 h5 h6 h7
  obtain t1 t2 where "killSession relay_env JUndefined dapp2 = (Inr (), t1)"
    and "\<not> p_connected t1" and "getStorageSession t1 = None"
    and "socketReceive relay_env (show_json kill_frame) dapp2 = (Inr (), t2)"
    and "\<not> p_connected t2" and "getStorageSession t2 = None"
    by blast
  with wf_emitters_dapp2 d c h1 h5 show ?thesis
    by simp
qed

section \<open>Responses to pending calls\<close>

text \<open>
  C7. The dApp \<open>dapp3\<close> has sent a transaction: its request has the id 1005, its promise
  is pending, and the correlator of the promise listens on \<^verbatim>\<open>response:1005\<close>. The claim
  is that a response to it without a result rejects the promise through that
  correlator, and that a response with a result resolves it. A response that carries
  only an error is not classified as a response: its event name is empty, it goes to
  the listeners of \<^verbatim>\<open>call_request\<close>, and the promise stays pending. A response whose
  result is \<^verbatim>\<open>false\<close> reaches the correlator, which rejects the promise. A response
  whose result is a transaction hash resolves it.
\<close>

theorem error_response_leaves_promise_pending:
  "promises dapp3 = [(CallerAwait, Pending)] \<and>
   (''response:1005'', CallResponseCb 0) \<in> set (p_eventEmitters dapp3) \<and>
   isRpcResponse error_response = False \<and>
   event_of error_response = JStr [] \<and>
   fst (triggerEvents 8 (mock_env []) error_response dapp3) = Inr () \<and>
   promises (snd (triggerEvents 8 (mock_env []) error_response dapp3)) = [(CallerAwait, Pending)] \<and>
   called (snd (triggerEvents 8 (mock_env []) error_response dapp3)) = [(0, error_response)] \<and>
   promises (snd (triggerEvents 8 (mock_env []) false_response dapp3)) =
     [(CallerAwait, Rejected ''Invalid JSON RPC response format received'')] \<and>
   promises (snd (triggerEvents 8 (mock_env []) hash_response dapp3)) =
     [(CallerAwait, Resolved (JStr ''0xdeadbeef''))]"
  unfolding dapp3_eq dapp2_eq dapp1_eq dapp0_eq error_response_def false_response_def
    hash_response_def
  by (simp add: model_defs mock_defs del: show_json.simps cong: let_weak_cong)

section \<open>Requests from the peer\<close>

text \<open>
  C10. \<^verbatim>\<open>approveRequest\<close> and \<^verbatim>\<open>rejectRequest\<close> yield the same connector from the same
  response and state: one frame more, published to the peer's topic, that carries the
  encrypted formatted response; the formatted response has a \<^verbatim>\<open>jsonrpc\<close> property,
  which is \<^verbatim>\<open>2.0\<close> when the response given has none.
\<close>

theorem approveRequest_rejectRequest_equal:
  "approveRequest e response s = rejectRequest e response s \<and>
   rejectRequest e response s =
     (let f = \<lparr>topic = p_peerId s, type = ''pub'',
                payload = stringify_payload e (encrypt e s (formatResponse response))\<rparr>
      in if p_socket s \<noteq> None then s\<lparr>wire := wire s @ [f]\<rparr>
         else s\<lparr>p_queue := p_queue s @ [f]\<rparr>) \<and>
   has ''jsonrpc'' (formatResponse response) \<and>
   (\<not> has ''jsonrpc'' response \<longrightarrow> getp (formatResponse response) ''jsonrpc'' = JStr ''2.0'')"
  by (simp add: approveRequest_def rejectRequest_def sendResponse_eq formatResponse_def
      has_spread_base getp_spread_other)

text \<open>C10, witness: a response with an id and a result, on the connector \<open>dapp0\<close>.\<close>

theorem approveRequest_rejectRequest_equal_witness:
  "\<not> has ''jsonrpc'' [(''id'', JNum 7), (''result'', JStr ''0x1'')] \<and>
   approveRequest (mock_env []) [(''id'', JNum 7), (''result'', JStr ''0x1'')] dapp0 =
     rejectRequest (mock_env []) [(''id'', JNum 7), (''result'', JStr ''0x1'')] dapp0 \<and>
   getp (formatResponse [(''id'', JNum 7), (''result'', JStr ''0x1'')]) ''jsonrpc'' = JStr ''2.0''"
  using approveRequest_rejectRequest_equal
    [of "mock_env []" "[(''id'', JNum 7), (''result'', JStr ''0x1'')]" dapp0]
  by simp


end
